theory Spec2Isabelle
  imports Complex_Main "HOL-Library.Word"
begin

section \<open>JavaScript values\<close>

subsection \<open>Strings\<close>

text \<open>
  A JavaScript string is a sequence of UTF-16 code units. String literals of the source
  that are plain ASCII are written with \<open>ascii\<close>; Cyrillic literals are given by their
  code units.
\<close>

type_synonym jsstring = "16 word list"

definition ascii :: "string \<Rightarrow> jsstring" where
  "ascii s = map (\<lambda>c. of_nat (of_char c)) s"

text \<open>
  Truthiness of a value that is a string or \<open>null\<close>/\<open>undefined\<close> (\<open>None\<close>):
  \<open>null\<close> and the empty string are falsy, every other string is truthy.
\<close>

fun truthy :: "jsstring option \<Rightarrow> bool" where
  "truthy None = False"
| "truthy (Some s) = (s \<noteq> [])"

text \<open>
  \<open>String.prototype.trim\<close> removes the ECMAScript white space and line terminator code
  points from both ends; all of them are single code units.
\<close>

definition is_space :: "16 word \<Rightarrow> bool" where
  "is_space c =
     (c = 0x0009 \<or> c = 0x000A \<or> c = 0x000B \<or> c = 0x000C \<or> c = 0x000D \<or> c = 0x0020 \<or>
      c = 0x00A0 \<or> c = 0x1680 \<or> (0x2000 \<le> c \<and> c \<le> 0x200A) \<or> c = 0x2028 \<or>
      c = 0x2029 \<or> c = 0x202F \<or> c = 0x205F \<or> c = 0x3000 \<or> c = 0xFEFF)"

definition trim :: "jsstring \<Rightarrow> jsstring" where
  "trim s = rev (dropWhile is_space (rev (dropWhile is_space s)))"

text \<open>\<open>s.substring(a, b)\<close> for non-negative integer arguments: the arguments are swapped
  when \<open>a > b\<close> and clamped to the length.\<close>

definition substring :: "nat \<Rightarrow> nat \<Rightarrow> jsstring \<Rightarrow> jsstring" where
  "substring a b s = take (max a b - min a b) (drop (min a b) s)"

text \<open>\<open>s.includes(sub)\<close>: \<open>sub\<close> occurs in \<open>s\<close> at some position.\<close>

definition str_includes :: "jsstring \<Rightarrow> jsstring \<Rightarrow> bool" where
  "str_includes s sub = list_ex (\<lambda>i. take (length sub) (drop i s) = sub) [0..<Suc (length s)]"

text \<open>The decimal digits of a non-negative integer, as a template literal prints it.\<close>

fun decimal :: "nat \<Rightarrow> jsstring" where
  "decimal n =
     (if n < 10 then [of_nat (48 + n)]
      else decimal (n div 10) @ [of_nat (48 + n mod 10)])"

declare decimal.simps [simp del]

subsection \<open>Numbers\<close>

text \<open>
  \<open>parseInt\<close> and \<open>parseFloat\<close> give a number or \<open>NaN\<close> (for an empty or malformed field).
  A finite number is modelled by the real number it denotes, \<open>parseInt\<close>'s result by
  an integer; the infinities are outside the model.
  \<open>!x\<close> holds of \<open>NaN\<close> and of zero; every comparison with \<open>NaN\<close> is false.
\<close>

datatype 'a num = NaN | Num 'a

definition falsy :: "('a::zero) num \<Rightarrow> bool" where
  "falsy x = (case x of NaN \<Rightarrow> True | Num v \<Rightarrow> v = 0)"

definition le_zero :: "('a::{zero,ord}) num \<Rightarrow> bool" where
  "le_zero x = (case x of NaN \<Rightarrow> False | Num v \<Rightarrow> v \<le> 0)"

definition num_le :: "('a::ord) num \<Rightarrow> 'a num \<Rightarrow> bool" where
  "num_le x y = (case (x, y) of (Num a, Num b) \<Rightarrow> a \<le> b | _ \<Rightarrow> False)"

text \<open>
  \<open>Number.prototype.toFixed(f)\<close>: for \<open>\<bar>x\<bar> < 10\<^sup>2\<^sup>1\<close> the digits of the integer \<open>n\<close> for which
  \<open>n / 10\<^sup>f\<close> is closest to \<open>\<bar>x\<bar>\<close> (the larger one of two), with \<open>f\<close> digits after the point and
  a minus sign when \<open>x < 0\<close>; otherwise, and for \<open>NaN\<close>, the text of \<open>Number::toString\<close>.
\<close>

datatype numtext =
    Digits bool nat nat      \<comment> \<open>minus sign, \<open>n\<close>, number of fraction digits\<close>
  | ToString "real num"

definition toFixed :: "nat \<Rightarrow> real num \<Rightarrow> numtext" where
  "toFixed f x =
     (case x of
        NaN \<Rightarrow> ToString NaN
      | Num v \<Rightarrow>
          if \<bar>v\<bar> \<ge> 10 ^ 21 then ToString (Num v)
          else Digits (v < 0) (nat \<lfloor>\<bar>v\<bar> * 10 ^ f + 1 / 2\<rfloor>) f)"

text \<open>\<open>Math.round\<close>: the nearest integer, a tie going up.\<close>

definition math_round :: "real \<Rightarrow> int" where
  "math_round x = \<lfloor>x + 1 / 2\<rfloor>"

subsection \<open>Double arithmetic\<close>

text \<open>
  A JavaScript number is an IEEE 754 double: an integer significand below \<open>2\<^sup>5\<^sup>3\<close> in absolute
  value times a power of two from \<open>2\<^sup>-\<^sup>1\<^sup>0\<^sup>7\<^sup>4\<close> to \<open>2\<^sup>9\<^sup>7\<^sup>1\<close>. Every arithmetic operation and
  every numeric literal gives the double nearest to the exact value, a tie going to the
  even significand.
\<close>

definition round_half_even :: "real \<Rightarrow> int" where
  "round_half_even y =
     (let n = \<lfloor>y\<rfloor> in
      if y - of_int n < 1 / 2 then n
      else if 1 / 2 < y - of_int n then n + 1
      else if even n then n else n + 1)"

text \<open>
  The scale of a number \<open>a \<ge> 0\<close> is the power of two \<open>k\<close> that brings \<open>a * k\<close> into the range of
  a full significand, from \<open>2\<^sup>5\<^sup>2\<close> up to \<open>2\<^sup>5\<^sup>3\<close>; it stops at \<open>2\<^sup>1\<^sup>0\<^sup>7\<^sup>4\<close>, where the subnormal
  numbers begin, and at \<open>2\<^sup>-\<^sup>9\<^sup>7\<^sup>1\<close>, the largest exponent. The first argument of \<open>grow\<close> and
  \<open>shrink\<close> counts the doublings and halvings that are left.
\<close>

fun grow :: "nat \<Rightarrow> real \<Rightarrow> real \<Rightarrow> real" where
  "grow 0 a k = k"
| "grow (Suc n) a k = (if a * k < 2 ^ 52 then grow n a (2 * k) else k)"

fun shrink :: "nat \<Rightarrow> real \<Rightarrow> real \<Rightarrow> real" where
  "shrink 0 a k = k"
| "shrink (Suc n) a k = (if 2 ^ 53 \<le> a * k then shrink n a (k / 2) else k)"

definition scale :: "real \<Rightarrow> real" where
  "scale a = (if a < 2 ^ 52 then grow 1074 a 1 else shrink 971 a 1)"

text \<open>
  The double nearest to a real number. A result of \<open>2\<^sup>1\<^sup>0\<^sup>2\<^sup>4\<close> or more in absolute value is
  infinite in JavaScript and outside the model.
\<close>

definition fl :: "real \<Rightarrow> real" where
  "fl x = sgn x * real_of_int (round_half_even (\<bar>x\<bar> * scale \<bar>x\<bar>)) / scale \<bar>x\<bar>"



definition double_mul :: "real \<Rightarrow> real \<Rightarrow> real" where
  "double_mul a b = fl (a * b)"

definition double_div :: "real \<Rightarrow> real \<Rightarrow> real" where
  "double_div a b = fl (a / b)"


section \<open>Page state and effects\<close>

text \<open>
  The texts of the notifications are Russian literals in the source; each is named here
  by a constructor, with the interpolated value as its argument.
\<close>

datatype notice =
    Welcome jsstring          \<comment> \<open>autoInit: welcome, your ID is ...\<close>
  | EnterUserId               \<comment> \<open>register: enter a user ID\<close>
  | IdChanged jsstring        \<comment> \<open>register: ID changed to ...\<close>
  | NewIdCreated jsstring     \<comment> \<open>resetUserId: new ID created\<close>
  | LoggedOut                 \<comment> \<open>logout: you have logged out\<close>
  | EnterWeightHeight         \<comment> \<open>IMT: enter valid weight and height\<close>
  | NoResult                  \<comment> \<open>the backend returned no result\<close>
  | ErrorMessage jsstring     \<comment> \<open>\<open>error.message\<close> of a caught error\<close>
  | IMTFailed                 \<comment> \<open>IMT calculation error\<close>
  | IMTSaved                  \<comment> \<open>IMT calculation saved\<close>
  | ChooseGender              \<comment> \<open>calories: choose a gender\<close>
  | EnterValidValues          \<comment> \<open>calories: enter valid values\<close>
  | CaloriesFailed            \<comment> \<open>calories calculation error\<close>
  | CaloriesSaved             \<comment> \<open>calories calculation saved\<close>
  | EnterPressure             \<comment> \<open>pressure: enter valid pressure values\<close>
  | SystolicMustBeHigher      \<comment> \<open>systolic pressure must be above diastolic\<close>
  | PressureFailed            \<comment> \<open>pressure analysis error\<close>
  | PressureSaved             \<comment> \<open>pressure analysis saved\<close>
  | HistoryLoadFailed         \<comment> \<open>history loading error\<close>
  | CalculationDeleted        \<comment> \<open>calculation deleted\<close>
  | DeleteFailed              \<comment> \<open>deletion error\<close>

datatype level = ErrorNote | SuccessNote

datatype field = UserIdField

datatype css = Success | Warning | Danger

text \<open>The seven category texts of \<open>getIMTCategory\<close>, in the order of the source.\<close>

datatype imt_text =
    SevereDeficit | Underweight | NormalWeight | Overweight
  | ObesityI | ObesityII | ObesityIII

datatype container = ImtResult | CaloriesResult | BpResult

datatype shown =
    Fixed numtext             \<comment> \<open>\<open>imt.toFixed(1)\<close>\<close>
  | Rounded int               \<comment> \<open>\<open>Math.round(tdee)\<close>\<close>
  | Pressure int int          \<comment> \<open>systolic/diastolic\<close>

datatype interp =
    FromBackend jsstring      \<comment> \<open>\<open>data.interpretation\<close>\<close>
  | CategoryText imt_text     \<comment> \<open>\<open>category.text\<close>\<close>
  | DailyCalories int         \<comment> \<open>daily calories: ... kcal\<close>
  | PressureMeasured          \<comment> \<open>pressure measured\<close>

datatype unit_text = KgPerM2 | KcalPerDay | MmHg

text \<open>The requests the API client sends.\<close>

datatype request =
    PostIMT jsstring real real
      \<comment> \<open>user_id, weight, height\<close>
  | PostCalories jsstring int real real jsstring "real num"
      \<comment> \<open>user_id, age, weight, height, gender, activity\<close>
  | PostBloodPressure jsstring int int
      \<comment> \<open>user_id, systolic, diastolic\<close>
  | GetHistory jsstring int int
      \<comment> \<open>user id, limit, offset\<close>
  | DeleteCalculation int jsstring
      \<comment> \<open>calculation id, user id\<close>

text \<open>What the pagination container is filled with.\<close>

datatype pager_item =
    PageButton int int bool   \<comment> \<open>page number, offset it loads, active\<close>
  | Dots

record pager =
  prevOffset :: int
  prevDisabled :: bool
  pageItems :: "pager_item list"
  nextOffset :: int
  nextDisabled :: bool
  shownFrom :: int
  shownTo :: int
  shownTotal :: int

datatype pagination = TotalOnly int | Controls pager

text \<open>
  A card of the history list. The title is a label of \<open>CONFIG\<close> or the raw type, the icon
  an icon of \<open>CONFIG\<close> or the chart; both can also be a member inherited from
  \<open>Object.prototype\<close>, named by its key.
\<close>

datatype type_label =
  LabelIMT | LabelCalories | LabelPressure | RawLabel jsstring | InheritedLabel jsstring

datatype type_icon =
  IconIMT | IconCalories | IconPressure | IconChart | InheritedIcon jsstring

record history_item =
  itemIcon :: type_icon
  itemTitle :: type_label
  itemDate :: jsstring
  itemResult :: real
  itemInterpretation :: "jsstring option"
  itemDeletes :: int

datatype history_view = HistoryEmpty | HistoryItems "history_item list"

datatype event =
    Notify level notice              \<comment> \<open>UIService.showError / UIService.showSuccess\<close>
  | SetInput field jsstring          \<comment> \<open>UIService.setInputValue\<close>
  | AutoInitLater                    \<comment> \<open>setTimeout(() => this.autoInit(), 500)\<close>
  | GenderActive bool                \<comment> \<open>the male (True) or female button is highlighted\<close>
  | Request request                  \<comment> \<open>a call of the API client\<close>
  | ShowResult container shown interp unit_text css
                                     \<comment> \<open>UIService.showResult\<close>
  | LoadHistoryLater                 \<comment> \<open>setTimeout(() => window.loadHistory(), 500)\<close>
  | RenderHistory history_view       \<comment> \<open>historyContainer.innerHTML = ...\<close>
  | RenderPagination pagination      \<comment> \<open>paginationContainer.innerHTML = ...\<close>
  | HistoryFooter int int            \<comment> \<open>historyContainer.innerHTML += shown ... of ... records\<close>

text \<open>
  \<open>storage\<close> is the item of \<open>localStorage\<close> under \<open>CONFIG.STORAGE_KEY\<close> (\<open>getItem\<close> gives
  \<open>null\<close> when there is none); \<open>draws\<close> counts the identifiers generated so far, so that
  each generation reads a fresh clock value and random number; \<open>trace\<close> lists the effects
  on the user interface and the network in the order they happen (\<open>console\<close> output is
  left out).
\<close>

record page =
  storage :: "jsstring option"
  draws :: nat
  trace :: "event list"

text \<open>The clock and the random number generator: what the \<open>k\<close>-th generation reads from
  \<open>Date.now()\<close> and from \<open>Math.random().toString(36)\<close>.\<close>

record env =
  now :: "nat \<Rightarrow> nat"
  random36 :: "nat \<Rightarrow> jsstring"

text \<open>
  The outcome of an awaited API call: the promise rejects (a transport error or a
  response that is not 2xx) with an error whose \<open>message\<close> may be absent, or resolves with
  the parsed body, which may be \<open>null\<close>.
\<close>

datatype 'r reply = Rejected "jsstring option" | Resolved "'r option"

text \<open>The body of a calculation response; \<open>None\<close> is a field that is \<open>undefined\<close>, and a
  result that is present is a number.\<close>

record response =
  result :: "real option"
  interpretationText :: "jsstring option"

definition emit :: "event \<Rightarrow> 'a page_scheme \<Rightarrow> 'a page_scheme" where
  "emit ev s = s\<lparr>trace := trace s @ [ev]\<rparr>"

text \<open>The requests sent and the error notifications shown so far.\<close>

definition requests :: "'a page_scheme \<Rightarrow> request list" where
  "requests s = concat (map (\<lambda>ev. case ev of Request r \<Rightarrow> [r] | _ \<Rightarrow> []) (trace s))"

definition errors :: "'a page_scheme \<Rightarrow> notice list" where
  "errors s = concat (map (\<lambda>ev. case ev of Notify ErrorNote m \<Rightarrow> [m] | _ \<Rightarrow> []) (trace s))"

section \<open>UIService\<close>

definition showError :: "notice \<Rightarrow> 'a page_scheme \<Rightarrow> 'a page_scheme" where
  "showError m s = emit (Notify ErrorNote m) s"

definition showSuccess :: "notice \<Rightarrow> 'a page_scheme \<Rightarrow> 'a page_scheme" where
  "showSuccess m s = emit (Notify SuccessNote m) s"

definition setInputValue :: "field \<Rightarrow> jsstring \<Rightarrow> 'a page_scheme \<Rightarrow> 'a page_scheme" where
  "setInputValue f v s = emit (SetInput f v) s"

definition showResult ::
  "container \<Rightarrow> shown \<Rightarrow> interp \<Rightarrow> unit_text \<Rightarrow> css \<Rightarrow> 'a page_scheme \<Rightarrow> 'a page_scheme" where
  "showResult c v i u cls s = emit (ShowResult c v i u cls) s"

section \<open>StorageService\<close>

definition getUserId :: "'a page_scheme \<Rightarrow> jsstring option" where
  "getUserId s = storage s"

definition setUserId :: "jsstring \<Rightarrow> 'a page_scheme \<Rightarrow> 'a page_scheme" where
  "setUserId userId s = s\<lparr>storage := Some userId\<rparr>"

definition removeUserId :: "'a page_scheme \<Rightarrow> 'a page_scheme" where
  "removeUserId s = s\<lparr>storage := None\<rparr>"

definition hasUserId :: "'a page_scheme \<Rightarrow> bool" where
  "hasUserId s = truthy (getUserId s)"

section \<open>AuthService\<close>

definition generateUserId :: "env \<Rightarrow> 'a page_scheme \<Rightarrow> jsstring \<times> 'a page_scheme" where
  "generateUserId e s =
     (let timestamp = now e (draws s);
          random = substring 2 9 (random36 e (draws s))
      in (ascii ''user_'' @ decimal timestamp @ ascii ''_'' @ random,
          s\<lparr>draws := Suc (draws s)\<rparr>))"

definition autoInit :: "env \<Rightarrow> 'a page_scheme \<Rightarrow> jsstring \<times> 'a page_scheme" where
  "autoInit e s =
     (let (userId, s1) =
            (case getUserId s of
               Some u \<Rightarrow>
                 if u \<noteq> [] then (u, s)
                 else (let (n, s') = generateUserId e s
                       in (n, showSuccess (Welcome n) (setUserId n s')))
             | None \<Rightarrow>
                 (let (n, s') = generateUserId e s
                  in (n, showSuccess (Welcome n) (setUserId n s'))))
      in (userId, setInputValue UserIdField userId s1))"

definition register :: "jsstring option \<Rightarrow> 'a page_scheme \<Rightarrow> bool \<times> 'a page_scheme" where
  "register userId s =
     (case userId of
        None \<Rightarrow> (False, showError EnterUserId s)
      | Some u \<Rightarrow>
          if u = [] \<or> trim u = [] then (False, showError EnterUserId s)
          else (let trimmedId = trim u
                in (True, showSuccess (IdChanged trimmedId) (setUserId trimmedId s))))"

text \<open>\<open>confirmed\<close> is the answer of the \<open>confirm\<close> dialog.\<close>

definition resetUserId :: "env \<Rightarrow> bool \<Rightarrow> 'a page_scheme \<Rightarrow> bool \<times> 'a page_scheme" where
  "resetUserId e confirmed s =
     (if \<not> confirmed then (False, s)
      else (let (newUserId, s1) = generateUserId e s
            in (True, showSuccess (NewIdCreated newUserId)
                        (setInputValue UserIdField newUserId (setUserId newUserId s1)))))"

definition logout :: "bool \<Rightarrow> 'a page_scheme \<Rightarrow> bool \<times> 'a page_scheme" where
  "logout confirmed s =
     (if \<not> confirmed then (False, s)
      else (True, emit AutoInitLater
                    (setInputValue UserIdField [] (showSuccess LoggedOut (removeUserId s)))))"

definition getCurrentUserId :: "env \<Rightarrow> 'a page_scheme \<Rightarrow> jsstring \<times> 'a page_scheme" where
  "getCurrentUserId e s =
     (case getUserId s of
        Some u \<Rightarrow> if u \<noteq> [] then (u, s) else autoInit e s
      | None \<Rightarrow> autoInit e s)"

definition isAuthenticated :: "'a page_scheme \<Rightarrow> bool" where
  "isAuthenticated s = hasUserId s"

definition requireAuth :: "env \<Rightarrow> 'a page_scheme \<Rightarrow> bool \<times> 'a page_scheme" where
  "requireAuth e s =
     (let s1 = (if \<not> isAuthenticated s then snd (autoInit e s) else s)
      in (True, s1))"

text \<open>A user id that is absent, empty or consists only of white space.\<close>

definition blank :: "jsstring option \<Rightarrow> bool" where
  "blank userId = (case userId of None \<Rightarrow> True | Some u \<Rightarrow> u = [] \<or> list_all is_space u)"

section \<open>Calculators (frontend/js/calculators.js)\<close>

subsection \<open>BaseCalculator\<close>

definition checkAuth :: "env \<Rightarrow> 'a page_scheme \<Rightarrow> bool \<times> 'a page_scheme" where
  "checkAuth e s = requireAuth e s"

text \<open>\<open>BaseCalculator.getUserId\<close>; the name \<open>getUserId\<close> is the storage service's here.\<close>

definition calculator_getUserId :: "env \<Rightarrow> 'a page_scheme \<Rightarrow> jsstring \<times> 'a page_scheme" where
  "calculator_getUserId e s = getCurrentUserId e s"

text \<open>\<open>error.message || fallback\<close> in the \<open>catch\<close> blocks.\<close>

definition message_or :: "jsstring option \<Rightarrow> notice \<Rightarrow> notice" where
  "message_or msg fallback =
     (case msg of
        Some m \<Rightarrow> if m \<noteq> [] then ErrorMessage m else fallback
      | None \<Rightarrow> fallback)"

text \<open>\<open>data.interpretation || fallback\<close>.\<close>

definition interpretation_or :: "jsstring option \<Rightarrow> interp \<Rightarrow> interp" where
  "interpretation_or i fallback =
     (case i of
        Some t \<Rightarrow> if t \<noteq> [] then FromBackend t else fallback
      | None \<Rightarrow> fallback)"

subsection \<open>IMTCalculator\<close>

record category =
  categoryClass :: css
  categoryText :: imt_text

definition getIMTCategory :: "real \<Rightarrow> category" where
  "getIMTCategory imt =
     (if imt < 16 then \<lparr>categoryClass = Danger, categoryText = SevereDeficit\<rparr>
      else if imt < 18.5 then \<lparr>categoryClass = Warning, categoryText = Underweight\<rparr>
      else if imt < 25 then \<lparr>categoryClass = Success, categoryText = NormalWeight\<rparr>
      else if imt < 30 then \<lparr>categoryClass = Warning, categoryText = Overweight\<rparr>
      else if imt < 35 then \<lparr>categoryClass = Danger, categoryText = ObesityI\<rparr>
      else if imt < 40 then \<lparr>categoryClass = Danger, categoryText = ObesityII\<rparr>
      else \<lparr>categoryClass = Danger, categoryText = ObesityIII\<rparr>)"

text \<open>
  \<open>weight\<close> and \<open>height\<close> are what \<open>parseFloat\<close> made of the two fields, \<open>reply\<close> is the
  outcome of the awaited request. A value that passes the check is a number, so the last
  case of the destructuring is never taken.
\<close>

definition IMTCalculator_calculate ::
  "env \<Rightarrow> real num \<Rightarrow> real num \<Rightarrow> response reply \<Rightarrow> 'a page_scheme \<Rightarrow> 'a page_scheme" where
  "IMTCalculator_calculate e weight height reply s =
     (let (ok, s1) = checkAuth e s in
      if \<not> ok then s1
      else if falsy weight \<or> falsy height \<or> le_zero weight \<or> le_zero height
      then showError EnterWeightHeight s1
      else
        (case (weight, height) of
           (Num w, Num h) \<Rightarrow>
             (let (logged_id, s2) = calculator_getUserId e s1;
                  (user_id, s3) = calculator_getUserId e s2;
                  s4 = emit (Request (PostIMT user_id w h)) s3
              in case reply of
                   Rejected msg \<Rightarrow> showError (message_or msg IMTFailed) s4
                 | Resolved None \<Rightarrow> showError NoResult s4
                 | Resolved (Some data) \<Rightarrow>
                     (case result data of
                        None \<Rightarrow> showError NoResult s4
                      | Some imt \<Rightarrow>
                          (let category = getIMTCategory imt;
                               s5 = showResult ImtResult (Fixed (toFixed 1 (Num imt)))
                                      (interpretation_or (interpretationText data)
                                         (CategoryText (categoryText category)))
                                      KgPerM2 (categoryClass category) s4;
                               s6 = showSuccess IMTSaved s5
                           in emit LoadHistoryLater s6)))
         | _ \<Rightarrow> showError EnterWeightHeight s1))"

subsection \<open>CaloriesCalculator\<close>

text \<open>The gender literals of the source: the Cyrillic letters em and zhe.\<close>

definition gender_m :: jsstring where
  "gender_m = [0x043C]"


record calories_page = page +
  selectedGender :: "jsstring option"

definition selectGender ::
  "jsstring option \<Rightarrow> 'a calories_page_scheme \<Rightarrow> 'a calories_page_scheme" where
  "selectGender gender s =
     emit (GenderActive (gender = Some gender_m)) (s\<lparr>selectedGender := gender\<rparr>)"

text \<open>
  \<open>age\<close> is what \<open>parseInt\<close> made of its field, \<open>weight\<close>, \<open>height\<close> and \<open>activity\<close> what
  \<open>parseFloat\<close> made of theirs.
\<close>

definition CaloriesCalculator_calculate ::
  "env \<Rightarrow> int num \<Rightarrow> real num \<Rightarrow> real num \<Rightarrow> real num \<Rightarrow> response reply \<Rightarrow>
     'a calories_page_scheme \<Rightarrow> 'a calories_page_scheme" where
  "CaloriesCalculator_calculate e age weight height activity reply s =
     (let (ok, s1) = checkAuth e s in
      if \<not> ok then s1
      else if \<not> truthy (selectedGender s1) then showError ChooseGender s1
      else if falsy age \<or> falsy weight \<or> falsy height \<or>
              le_zero age \<or> le_zero weight \<or> le_zero height
      then showError EnterValidValues s1
      else
        (case (age, weight, height, selectedGender s1) of
           (Num a, Num w, Num h, Some gender) \<Rightarrow>
             (let (logged_id, s2) = calculator_getUserId e s1;
                  (user_id, s3) = calculator_getUserId e s2;
                  s4 = emit (Request (PostCalories user_id a w h gender activity)) s3
              in case reply of
                   Rejected msg \<Rightarrow> showError (message_or msg CaloriesFailed) s4
                 | Resolved None \<Rightarrow> showError NoResult s4
                 | Resolved (Some data) \<Rightarrow>
                     (case result data of
                        None \<Rightarrow> showError NoResult s4
                      | Some tdee \<Rightarrow>
                          (let s5 = showResult CaloriesResult (Rounded (math_round tdee))
                                      (interpretation_or (interpretationText data)
                                         (DailyCalories (math_round tdee)))
                                      KcalPerDay Success s4;
                               s6 = showSuccess CaloriesSaved s5
                           in emit LoadHistoryLater s6)))
         | _ \<Rightarrow> showError EnterValidValues s1))"

subsection \<open>BloodPressureCalculator\<close>

text \<open>The Cyrillic words the class of the result is chosen by: crisis, hypertension,
  elevated, and \<open>I\<close> followed by the word for degree.\<close>

definition word_crisis :: jsstring where
  "word_crisis = [0x043A, 0x0440, 0x0438, 0x0437]"

definition word_hypertension :: jsstring where
  "word_hypertension =
     [0x0413, 0x0438, 0x043F, 0x0435, 0x0440, 0x0442, 0x043E, 0x043D, 0x0438, 0x044F]"

definition word_elevated :: jsstring where
  "word_elevated =
     [0x041F, 0x043E, 0x0432, 0x044B, 0x0448, 0x0435, 0x043D, 0x043D, 0x043E, 0x0435]"

definition word_first_degree :: jsstring where
  "word_first_degree = [0x0049, 0x0020, 0x0441, 0x0442, 0x0435, 0x043F, 0x0435, 0x043D, 0x0438]"

definition pressure_class :: "jsstring option \<Rightarrow> css" where
  "pressure_class i =
     (case i of
        None \<Rightarrow> Success
      | Some t \<Rightarrow>
          if t = [] then Success
          else if str_includes t word_crisis \<or> str_includes t (ascii ''II'') then Danger
          else if str_includes t word_hypertension \<or> str_includes t word_elevated \<or>
                  str_includes t word_first_degree
          then Warning
          else Success)"

text \<open>\<open>systolic\<close> and \<open>diastolic\<close> are what \<open>parseInt\<close> made of the two fields.\<close>

definition BloodPressureCalculator_calculate ::
  "env \<Rightarrow> int num \<Rightarrow> int num \<Rightarrow> response reply \<Rightarrow> 'a page_scheme \<Rightarrow> 'a page_scheme" where
  "BloodPressureCalculator_calculate e systolic diastolic reply s =
     (let (ok, s1) = checkAuth e s in
      if \<not> ok then s1
      else if falsy systolic \<or> falsy diastolic \<or> le_zero systolic \<or> le_zero diastolic
      then showError EnterPressure s1
      else if num_le systolic diastolic then showError SystolicMustBeHigher s1
      else
        (case (systolic, diastolic) of
           (Num sys, Num dia) \<Rightarrow>
             (let (logged_id, s2) = calculator_getUserId e s1;
                  (user_id, s3) = calculator_getUserId e s2;
                  s4 = emit (Request (PostBloodPressure user_id sys dia)) s3
              in case reply of
                   Rejected msg \<Rightarrow> showError (message_or msg PressureFailed) s4
                 | Resolved None \<Rightarrow> showError NoResult s4
                 | Resolved (Some data) \<Rightarrow>
                     (case result data of
                        None \<Rightarrow> showError NoResult s4
                      | Some r \<Rightarrow>
                          (let categoryClass = pressure_class (interpretationText data);
                               s5 = showResult BpResult (Pressure sys dia)
                                      (interpretation_or (interpretationText data)
                                         PressureMeasured)
                                      MmHg categoryClass s4;
                               s6 = showSuccess PressureSaved s5
                           in emit LoadHistoryLater s6)))
         | _ \<Rightarrow> showError EnterPressure s1))"

text \<open>A field that holds a number above zero: neither missing nor non-positive.\<close>

definition positive :: "('a::{zero,ord}) num \<Rightarrow> bool" where
  "positive x = (case x of NaN \<Rightarrow> False | Num v \<Rightarrow> 0 < v)"

section \<open>The stand-alone page script (js/app.js)\<close>

text \<open>
  The script keeps the logged-in user and the selected gender in two globals and writes
  its results straight into the page. Its notification texts and result texts are named
  by constructors, as above.
\<close>

datatype app_notice =
    PleaseEnterUserId         \<comment> \<open>please enter a user ID\<close>
  | LoggedIn                  \<comment> \<open>you have logged in\<close>
  | PleaseLogin               \<comment> \<open>please log in first\<close>
  | EnterCorrectValues        \<comment> \<open>enter valid values\<close>
  | IMTCalculated             \<comment> \<open>IMT calculated\<close>
  | FillAllFields             \<comment> \<open>fill in all fields and choose a gender\<close>
  | CaloriesCalculated        \<comment> \<open>calories calculated\<close>
  | EnterBothPressures        \<comment> \<open>enter both pressure values\<close>
  | PressureChecked           \<comment> \<open>pressure checked\<close>

datatype weight_text = TooLight | NormalLight | TooHeavy | Obese

datatype bp_category = BpNormal | BpElevated | BpStageI | BpStageII

datatype bp_advice = Optimal | WatchPressure | SeeDoctor | SeeDoctorUrgently

datatype app_event =
    AppError app_notice
  | AppSuccess app_notice
  | UserIdDisabled
  | AppGenderActive bool
  | ImtBox numtext weight_text css
  | CaloriesBox numtext numtext css      \<comment> \<open>\<open>bmr.toFixed(0)\<close>, \<open>tdee.toFixed(0)\<close>, class\<close>
  | BpBox int int bp_category bp_advice css

record app =
  currentUser :: "jsstring option"
  app_selectedGender :: "jsstring option"
  shownEvents :: "app_event list"

definition app_emit :: "app_event \<Rightarrow> app \<Rightarrow> app" where
  "app_emit ev s = s\<lparr>shownEvents := shownEvents s @ [ev]\<rparr>"

definition app_showError :: "app_notice \<Rightarrow> app \<Rightarrow> app" where
  "app_showError m s = app_emit (AppError m) s"

definition app_showSuccess :: "app_notice \<Rightarrow> app \<Rightarrow> app" where
  "app_showSuccess m s = app_emit (AppSuccess m) s"

definition app_selectGender :: "jsstring option \<Rightarrow> app \<Rightarrow> app" where
  "app_selectGender gender s =
     app_emit (AppGenderActive (gender = Some gender_m)) (s\<lparr>app_selectedGender := gender\<rparr>)"

text \<open>\<open>field\<close> is the text of the user id field.\<close>

definition registerUser :: "jsstring \<Rightarrow> app \<Rightarrow> app" where
  "registerUser field s =
     (let userId = trim field in
      if userId = [] then app_showError PleaseEnterUserId s
      else app_emit UserIdDisabled (app_showSuccess LoggedIn (s\<lparr>currentUser := Some userId\<rparr>)))"

definition calculateIMT :: "real num \<Rightarrow> real num \<Rightarrow> app \<Rightarrow> app" where
  "calculateIMT weight height s =
     (if \<not> truthy (currentUser s) then app_showError PleaseLogin s
      else if falsy weight \<or> falsy height \<or> le_zero weight \<or> le_zero height
      then app_showError EnterCorrectValues s
      else
        (case (weight, height) of
           (Num w, Num h) \<Rightarrow>
             (let heightM = double_div h (fl 100);
                  imt = double_div w (double_mul heightM heightM);
                  (interpretation, resultClass) =
                    (if imt < 18.5 then (TooLight, Warning)
                     else if imt < 25 then (NormalLight, Success)
                     else if imt < 30 then (TooHeavy, Warning)
                     else (Obese, Danger))
              in app_showSuccess IMTCalculated
                   (app_emit (ImtBox (toFixed 1 (Num imt)) interpretation resultClass) s))
         | _ \<Rightarrow> app_showError EnterCorrectValues s))"



text \<open>The rule chain of \<open>calculateBP\<close>: category, advice text and class of the result.\<close>

definition classifyBP :: "int \<Rightarrow> int \<Rightarrow> bp_category \<times> bp_advice \<times> css" where
  "classifyBP systolic diastolic =
     (if systolic < 120 \<and> diastolic < 80 then (BpNormal, Optimal, Success)
      else if systolic < 130 \<and> diastolic < 80 then (BpElevated, WatchPressure, Warning)
      else if systolic < 140 \<or> diastolic < 90 then (BpStageI, SeeDoctor, Warning)
      else (BpStageII, SeeDoctorUrgently, Danger))"

definition calculateBP :: "int num \<Rightarrow> int num \<Rightarrow> app \<Rightarrow> app" where
  "calculateBP systolic diastolic s =
     (if \<not> truthy (currentUser s) then app_showError PleaseLogin s
      else if falsy systolic \<or> falsy diastolic then app_showError EnterBothPressures s
      else
        (case (systolic, diastolic) of
           (Num sys, Num dia) \<Rightarrow>
             (let (category, interpretation, resultClass) = classifyBP sys dia
              in app_showSuccess PressureChecked
                   (app_emit (BpBox sys dia category interpretation resultClass) s))
         | _ \<Rightarrow> app_showError EnterBothPressures s))"

text \<open>
  The rule table of the blood pressure classification as the specification gives it: the
  rules in order, each with its category and severity, and the evaluation that takes the
  first rule whose condition holds.
\<close>

definition spec_bp_rules :: "((int \<Rightarrow> int \<Rightarrow> bool) \<times> bp_category \<times> css) list" where
  "spec_bp_rules =
     [(\<lambda>systolic diastolic. systolic < 120 \<and> diastolic < 80, BpNormal, Success),
      (\<lambda>systolic diastolic. systolic < 130 \<and> diastolic < 80, BpElevated, Warning),
      (\<lambda>systolic diastolic. systolic < 140 \<or> diastolic < 90, BpStageI, Warning),
      (\<lambda>systolic diastolic. True, BpStageII, Danger)]"

fun first_match :: "(('a \<Rightarrow> 'b \<Rightarrow> bool) \<times> 'c) list \<Rightarrow> 'a \<Rightarrow> 'b \<Rightarrow> 'c option" where
  "first_match [] x y = None"
| "first_match ((p, out) # rules) x y = (if p x y then Some out else first_match rules x y)"

section \<open>HistoryService\<close>

subsection \<open>Records and page state\<close>

text \<open>A calculation record as the backend returns it; \<open>None\<close> is an absent field.\<close>

record calc_record =
  calc_id :: int
  type_field :: "jsstring option"           \<comment> \<open>\<open>calc.type\<close>\<close>
  calc_type :: "jsstring option"
  calc_result :: real
  calc_interpretation :: "jsstring option"
  created_at :: jsstring

text \<open>The body of a history response.\<close>

record history_data =
  calculations :: "calc_record list option"
  total :: "int option"
  limit :: "int option"

text \<open>
  The static fields of \<open>HistoryService\<close>, and whether the page has the two containers
  the service writes to.
\<close>

record history_page = page +
  currentOffset :: int
  currentLimit :: int
  totalRecords :: int
  historyContainer :: bool
  paginationContainer :: bool

text \<open>
  A statement sequence either runs to its end or throws; both leave a state behind. A
  \<open>catch\<close> block continues from the state at the throw.
\<close>

datatype 's outcome = Threw 's | Returned 's

subsection \<open>CONFIG\<close>

definition DEFAULT_LIMIT :: int where
  "DEFAULT_LIMIT = 10"

text \<open>
  The two tables are plain objects: a lookup finds their own properties and, under the
  names below, the members every object inherits from \<open>Object.prototype\<close>; any other key
  gives \<open>undefined\<close>.
\<close>

definition object_prototype_members :: "jsstring list" where
  "object_prototype_members =
     map ascii
       [''constructor'', ''hasOwnProperty'', ''isPrototypeOf'', ''propertyIsEnumerable'',
        ''toLocaleString'', ''toString'', ''valueOf'', ''__proto__'', ''__defineGetter__'',
        ''__defineSetter__'', ''__lookupGetter__'', ''__lookupSetter__'']"

definition CALC_TYPE_LABELS :: "jsstring \<Rightarrow> type_label option" where
  "CALC_TYPE_LABELS key =
     (case map_of [(ascii ''imt'', LabelIMT), (ascii ''calories'', LabelCalories),
                   (ascii ''blood_pressure'', LabelPressure)] key of
        Some l \<Rightarrow> Some l
      | None \<Rightarrow> if key \<in> set object_prototype_members then Some (InheritedLabel key) else None)"

definition CALC_TYPE_ICONS :: "jsstring \<Rightarrow> type_icon option" where
  "CALC_TYPE_ICONS key =
     (case map_of [(ascii ''imt'', IconIMT), (ascii ''calories'', IconCalories),
                   (ascii ''blood_pressure'', IconPressure)] key of
        Some i \<Rightarrow> Some i
      | None \<Rightarrow> if key \<in> set object_prototype_members then Some (InheritedIcon key) else None)"

subsection \<open>The history list\<close>

text \<open>\<open>a || b\<close> on strings that may be absent.\<close>

definition or_else :: "jsstring option \<Rightarrow> jsstring option \<Rightarrow> jsstring option" where
  "or_else a b = (if truthy a then a else b)"

text \<open>
  The date is kept as the backend sent it: the text \<open>toLocaleString\<close> makes of it depends
  on the browser.
\<close>

definition createHistoryItem :: "calc_record \<Rightarrow> history_item" where
  "createHistoryItem calc =
     (let rawCalcType =
            (case or_else (or_else (type_field calc) (calc_type calc)) (Some (ascii ''unknown'')) of
               Some t \<Rightarrow> t
             | None \<Rightarrow> ascii ''unknown'');
          calcType = map (\<lambda>c. if c = 0x5F then 0x2D else c) rawCalcType;
          icon =
            (case CALC_TYPE_ICONS calcType of
               Some i \<Rightarrow> i
             | None \<Rightarrow> (case CALC_TYPE_ICONS rawCalcType of Some i \<Rightarrow> i | None \<Rightarrow> IconChart));
          typeName =
            (case CALC_TYPE_LABELS calcType of
               Some l \<Rightarrow> l
             | None \<Rightarrow>
                 (case CALC_TYPE_LABELS rawCalcType of Some l \<Rightarrow> l | None \<Rightarrow> RawLabel rawCalcType))
      in \<lparr>itemIcon = icon, itemTitle = typeName, itemDate = created_at calc,
          itemResult = calc_result calc,
          itemInterpretation =
            (if truthy (calc_interpretation calc) then calc_interpretation calc else None),
          itemDeletes = calc_id calc\<rparr>)"

text \<open>Writing to a container the page does not have throws a \<open>TypeError\<close>.\<close>

definition renderHistory ::
  "history_data \<Rightarrow> 'a history_page_scheme \<Rightarrow> 'a history_page_scheme outcome" where
  "renderHistory data s =
     (case calculations data of
        None \<Rightarrow>
          if historyContainer s then Returned (emit (RenderHistory HistoryEmpty) s) else Threw s
      | Some calcs \<Rightarrow>
          if length calcs = 0
          then (if historyContainer s then Returned (emit (RenderHistory HistoryEmpty) s)
                else Threw s)
          else (let items = map createHistoryItem calcs
                in if historyContainer s
                   then Returned (emit (RenderHistory (HistoryItems items)) s)
                   else Threw s))"

subsection \<open>Pagination\<close>

text \<open>
  The numbers of the pagination are safe integers, that is integers below \<open>2\<^sup>5\<^sup>3\<close> in
  absolute value (\<open>Number.isSafeInteger\<close>): on them the sums, differences and products of
  the source are exact as long as the result is again safe, and the model computes them
  on \<open>int\<close>. The two quotients are not exact, they are double divisions. Larger numbers,
  where sums and products are rounded, are outside the model. \<open>perPage\<close> stands for
  \<open>this.currentLimit\<close>.
\<close>

definition totalPages_of :: "int \<Rightarrow> int \<Rightarrow> int" where
  "totalPages_of records perPage =
     \<lceil>double_div (real_of_int records) (real_of_int perPage)\<rceil>"

definition currentPage_of :: "int \<Rightarrow> int \<Rightarrow> int" where
  "currentPage_of offset perPage =
     \<lfloor>double_div (real_of_int offset) (real_of_int perPage)\<rfloor> + 1"

text \<open>The first and the last page number of the window of page buttons.\<close>

definition page_window :: "int \<Rightarrow> int \<Rightarrow> int \<times> int" where
  "page_window currentPage totalPages =
     (let maxVisible = 5;
          startPage = max 1 (currentPage - \<lfloor>real_of_int maxVisible / 2\<rfloor>);
          endPage = min totalPages (startPage + maxVisible - 1);
          startPage = (if endPage - startPage < maxVisible - 1
                       then max 1 (endPage - maxVisible + 1) else startPage)
      in (startPage, endPage))"

text \<open>The loop \<open>for (let page = startPage; page <= endPage; page++)\<close>.\<close>

function page_buttons :: "int \<Rightarrow> int \<Rightarrow> int \<Rightarrow> int \<Rightarrow> pager_item list" where
  "page_buttons page endPage currentPage perPage =
     (if page \<le> endPage
      then PageButton page ((page - 1) * perPage) (page = currentPage)
             # page_buttons (page + 1) endPage currentPage perPage
      else [])"
  by pat_completeness auto
termination
  by (relation "measure (\<lambda>(page, endPage, currentPage, perPage). nat (endPage + 1 - page))")
     auto

declare page_buttons.simps [simp del]

definition pagination_items :: "int \<Rightarrow> int \<Rightarrow> int \<Rightarrow> pager_item list" where
  "pagination_items currentPage totalPages perPage =
     (let (startPage, endPage) = page_window currentPage totalPages
      in (if startPage > 1
          then PageButton 1 0 False # (if startPage > 2 then [Dots] else [])
          else [])
         @ page_buttons startPage endPage currentPage perPage
         @ (if endPage < totalPages
            then (if endPage < totalPages - 1 then [Dots] else [])
                 @ [PageButton totalPages ((totalPages - 1) * perPage) False]
            else []))"

definition renderPagination :: "'a history_page_scheme \<Rightarrow> 'a history_page_scheme" where
  "renderPagination s =
     (if \<not> paginationContainer s then s
      else
        (let totalPages = totalPages_of (totalRecords s) (currentLimit s);
             currentPage = currentPage_of (currentOffset s) (currentLimit s)
         in if totalPages \<le> 1 then emit (RenderPagination (TotalOnly (totalRecords s))) s
            else emit (RenderPagination (Controls
                   \<lparr>prevOffset = (currentPage - 2) * currentLimit s,
                    prevDisabled = (currentPage = 1),
                    pageItems = pagination_items currentPage totalPages (currentLimit s),
                    nextOffset = currentPage * currentLimit s,
                    nextDisabled = (currentPage = totalPages),
                    shownFrom = currentOffset s + 1,
                    shownTo = min (currentOffset s + currentLimit s) (totalRecords s),
                    shownTotal = totalRecords s\<rparr>)) s))"

subsection \<open>Loading and deleting\<close>

text \<open>
  \<open>reply\<close> is the outcome of the awaited \<open>api.getHistory\<close>. A body that is \<open>null\<close> makes the
  first read of \<open>data.calculations\<close> throw. Everything after the request is inside the
  \<open>try\<close> block, whose \<open>catch\<close> shows the error notification.
\<close>

definition loadHistory ::
  "env \<Rightarrow> int \<Rightarrow> history_data reply \<Rightarrow> 'a history_page_scheme \<Rightarrow>
     'a history_page_scheme outcome" where
  "loadHistory e offset reply s =
     (let (ok, s1) = requireAuth e s in
      if \<not> ok then Returned s1
      else
        (let (userId, s2) = getCurrentUserId e s1;
             s3 = s2\<lparr>currentOffset := offset\<rparr>;
             s4 = emit (Request (GetHistory userId (currentLimit s3) offset)) s3
         in case reply of
              Rejected msg \<Rightarrow> Returned (showError HistoryLoadFailed s4)
            | Resolved None \<Rightarrow> Returned (showError HistoryLoadFailed s4)
            | Resolved (Some data) \<Rightarrow>
                (let s5 = s4\<lparr>totalRecords := (case total data of Some t \<Rightarrow> t | None \<Rightarrow> 0)\<rparr>
                 in case renderHistory data s5 of
                      Threw s6 \<Rightarrow> Returned (showError HistoryLoadFailed s6)
                    | Returned s6 \<Rightarrow> Returned (renderPagination s6))))"

text \<open>
  \<open>confirmed\<close> is the answer of the \<open>confirm\<close> dialog, \<open>deleted\<close> the outcome of the awaited
  \<open>api.deleteCalculation\<close> and \<open>reply\<close> that of the request \<open>loadHistory\<close> then sends.
\<close>

definition deleteCalculation ::
  "env \<Rightarrow> int \<Rightarrow> bool \<Rightarrow> unit reply \<Rightarrow> history_data reply \<Rightarrow> 'a history_page_scheme \<Rightarrow>
     'a history_page_scheme outcome" where
  "deleteCalculation e calcId confirmed deleted reply s =
     (let (ok, s1) = requireAuth e s in
      if \<not> ok then Returned s1
      else if \<not> confirmed then Returned s1
      else
        (let (userId, s2) = getCurrentUserId e s1;
             s3 = emit (Request (DeleteCalculation calcId userId)) s2
         in case deleted of
              Rejected msg \<Rightarrow> Returned (showError DeleteFailed s3)
            | Resolved body \<Rightarrow>
                (let s4 = showSuccess CalculationDeleted s3
                 in case loadHistory e (currentOffset s4) reply s4 of
                      Threw s5 \<Rightarrow> Returned (showError DeleteFailed s5)
                    | Returned s5 \<Rightarrow> Returned s5)))"

subsection \<open>The history service without pagination (frontend/js/history.js)\<close>

text \<open>
  This version of the service has no offset: it always loads the first
  \<open>CONFIG.DEFAULT_LIMIT\<close> records. Its functions carry the prefix \<open>plain\<close> here.
\<close>

definition plain_createHistoryItem :: "calc_record \<Rightarrow> history_item" where
  "plain_createHistoryItem calc =
     (let icon =
            (case calc_type calc of
               None \<Rightarrow> IconChart
             | Some t \<Rightarrow> (case CALC_TYPE_ICONS t of Some i \<Rightarrow> i | None \<Rightarrow> IconChart));
          typeName =
            (case calc_type calc of
               None \<Rightarrow> RawLabel (ascii ''undefined'')
             | Some t \<Rightarrow> (case CALC_TYPE_LABELS t of Some l \<Rightarrow> l | None \<Rightarrow> RawLabel t))
      in \<lparr>itemIcon = icon, itemTitle = typeName, itemDate = created_at calc,
          itemResult = calc_result calc,
          itemInterpretation =
            (if truthy (calc_interpretation calc) then calc_interpretation calc else None),
          itemDeletes = calc_id calc\<rparr>)"

definition plain_renderHistory ::
  "history_data \<Rightarrow> 'a history_page_scheme \<Rightarrow> 'a history_page_scheme outcome" where
  "plain_renderHistory data s =
     (case calculations data of
        None \<Rightarrow>
          if historyContainer s then Returned (emit (RenderHistory HistoryEmpty) s) else Threw s
      | Some calcs \<Rightarrow>
          if length calcs = 0
          then (if historyContainer s then Returned (emit (RenderHistory HistoryEmpty) s)
                else Threw s)
          else (let items = map plain_createHistoryItem calcs
                in if \<not> historyContainer s then Threw s
                   else (let s1 = emit (RenderHistory (HistoryItems items)) s
                         in case (total data, limit data) of
                              (Some t, Some l) \<Rightarrow>
                                if t > l then Returned (emit (HistoryFooter (int (length calcs)) t) s1)
                                else Returned s1
                            | _ \<Rightarrow> Returned s1)))"

definition plain_loadHistory ::
  "env \<Rightarrow> history_data reply \<Rightarrow> 'a history_page_scheme \<Rightarrow> 'a history_page_scheme outcome" where
  "plain_loadHistory e reply s =
     (let (ok, s1) = requireAuth e s in
      if \<not> ok then Returned s1
      else
        (let (userId, s2) = getCurrentUserId e s1;
             s3 = emit (Request (GetHistory userId DEFAULT_LIMIT 0)) s2
         in case reply of
              Rejected msg \<Rightarrow> Returned (showError HistoryLoadFailed s3)
            | Resolved None \<Rightarrow> Returned (showError HistoryLoadFailed s3)
            | Resolved (Some data) \<Rightarrow>
                (case plain_renderHistory data s3 of
                   Threw s4 \<Rightarrow> Returned (showError HistoryLoadFailed s4)
                 | Returned s4 \<Rightarrow> Returned s4)))"

definition plain_deleteCalculation ::
  "env \<Rightarrow> int \<Rightarrow> bool \<Rightarrow> unit reply \<Rightarrow> history_data reply \<Rightarrow> 'a history_page_scheme \<Rightarrow>
     'a history_page_scheme outcome" where
  "plain_deleteCalculation e calcId confirmed deleted reply s =
     (let (ok, s1) = requireAuth e s in
      if \<not> ok then Returned s1
      else if \<not> confirmed then Returned s1
      else
        (let (userId, s2) = getCurrentUserId e s1;
             s3 = emit (Request (DeleteCalculation calcId userId)) s2
         in case deleted of
              Rejected msg \<Rightarrow> Returned (showError DeleteFailed s3)
            | Resolved body \<Rightarrow>
                (let s4 = showSuccess CalculationDeleted s3
                 in case plain_loadHistory e reply s4 of
                      Threw s5 \<Rightarrow> Returned (showError DeleteFailed s5)
                    | Returned s5 \<Rightarrow> Returned s5)))"

text \<open>An empty result set: the list of calculations is absent or has no element.\<close>

definition empty_result :: "history_data \<Rightarrow> bool" where
  "empty_result data = (case calculations data of None \<Rightarrow> True | Some calcs \<Rightarrow> calcs = [])"

section \<open>Example states\<close>

text \<open>The states and environments at which the theorems below are instantiated.\<close>

text \<open>Two environments: a clock in milliseconds and a random number as \<open>toString(36)\<close>
  prints it.\<close>

definition sample_env :: env where
  "sample_env =
     \<lparr>now = (\<lambda>k. 1730000000000 + k), random36 = (\<lambda>k. ascii ''0.4fzyo82mvyr'')\<rparr>"

definition later_env :: env where
  "later_env =
     \<lparr>now = (\<lambda>k. 1730000000777 + k), random36 = (\<lambda>k. ascii ''0.zzzzzzzzzzz'')\<rparr>"

text \<open>A page whose storage holds the given item, before any effect.\<close>

definition page_storing :: "jsstring option \<Rightarrow> page" where
  "page_storing item = \<lparr>storage = item, draws = 0, trace = []\<rparr>"

text \<open>The calories calculator of the user \<open>u1\<close> with the given gender selection.\<close>

definition calories_form :: "jsstring option \<Rightarrow> calories_page" where
  "calories_form gender =
     \<lparr>storage = Some (ascii ''u1''), draws = 0, trace = [], selectedGender = gender\<rparr>"

text \<open>The stand-alone page after the user \<open>u1\<close> has logged in and chosen the male gender.\<close>

definition logged_in_page :: app where
  "logged_in_page =
     \<lparr>currentUser = Some (ascii ''u1''), app_selectedGender = Some gender_m, shownEvents = []\<rparr>"

text \<open>The history of the user \<open>u1\<close> at an offset, with 10 records per page and a total.\<close>

definition history_at :: "int \<Rightarrow> int \<Rightarrow> history_page" where
  "history_at offset records =
     \<lparr>storage = Some (ascii ''u1''), draws = 0, trace = [], currentOffset = offset,
      currentLimit = 10, totalRecords = records, historyContainer = True,
      paginationContainer = True\<rparr>"

section \<open>Verified properties\<close>

subsection \<open>Rounding\<close>

lemma round_half_close: "\<bar>real_of_int \<lfloor>y + 1 / 2\<rfloor> - y\<bar> \<le> 1 / 2"
  by linarith

lemma toFixed_nearest:
  assumes "\<bar>v\<bar> < 10 ^ 21"
  shows "\<exists>n. toFixed f (Num v) = Digits (v < 0) n f \<and>
             \<bar>(if v < 0 then - 1 else 1) * real n / 10 ^ f - v\<bar> \<le> 1 / (2 * 10 ^ f)"
proof -
  define y where "y = \<bar>v\<bar> * 10 ^ f"
  define k where "k = \<lfloor>y + 1 / 2\<rfloor>"
  have y0: "0 \<le> y" by (simp add: y_def)
  then have k0: "0 \<le> k" unfolding k_def by linarith
  have t: "toFixed f (Num v) = Digits (v < 0) (nat k) f"
    using assms by (simp add: toFixed_def k_def y_def)
  have rn: "real (nat k) = real_of_int k" using k0 by simp
  have close: "\<bar>real_of_int k - y\<bar> \<le> 1 / 2"
    unfolding k_def by (rule round_half_close)
  have p: "(0::real) < 10 ^ f" by simp
  have "(if v < 0 then - 1 else 1) * real (nat k) / 10 ^ f - v =
          (if v < 0 then - 1 else 1) * ((real_of_int k - y) / 10 ^ f)"
    unfolding rn y_def by (simp add: field_simps)
  then have "\<bar>(if v < 0 then - 1 else 1) * real (nat k) / 10 ^ f - v\<bar> =
               \<bar>real_of_int k - y\<bar> / 10 ^ f"
    by (simp add: abs_mult)
  also have "\<dots> \<le> (1 / 2) / 10 ^ f"
    by (rule divide_right_mono [OF close]) simp
  finally have "\<bar>(if v < 0 then - 1 else 1) * real (nat k) / 10 ^ f - v\<bar> \<le> 1 / (2 * 10 ^ f)"
    by simp
  with t show ?thesis by blast
qed


subsection \<open>Double arithmetic\<close>

text \<open>
  Rounding to the nearest double moves a scaled significand by at most one half. For a
  quotient of two safe integers this is too little to cross an integer, so that
  \<open>Math.floor\<close> and \<open>Math.ceil\<close> of the double quotient are the floor and the ceiling of the
  exact one.
\<close>

lemma round_half_even_close: "\<bar>real_of_int (round_half_even y) - y\<bar> \<le> 1 / 2"
  unfolding round_half_even_def Let_def by (simp; linarith)

lemma round_half_even_int: "round_half_even (real_of_int n) = n"
  by (simp add: round_half_even_def)

lemma grow_spec:
  assumes "0 < a" and "a * 2 ^ i < 2 ^ 53" and "2 ^ 52 \<le> a * 2 ^ (i + n)"
  shows "\<exists>j\<le>n. grow n a (2 ^ i) = 2 ^ (i + j) \<and> 2 ^ 52 \<le> a * 2 ^ (i + j) \<and>
               a * 2 ^ (i + j) < 2 ^ 53"
  using assms
proof (induction n arbitrary: i)
  case 0
  then show ?case by simp
next
  case (Suc n)
  show ?case
  proof (cases "a * 2 ^ i < 2 ^ 52")
    case True
    have lt: "a * 2 ^ Suc i < 2 ^ 53" using True by simp
    have ge: "2 ^ 52 \<le> a * 2 ^ (Suc i + n)" using Suc.prems(3) by simp
    from Suc.IH [OF Suc.prems(1) lt ge]
    obtain j where j: "j \<le> n" "grow n a (2 ^ Suc i) = 2 ^ (Suc i + j)"
      "2 ^ 52 \<le> a * 2 ^ (Suc i + j)" "a * 2 ^ (Suc i + j) < 2 ^ 53"
      by blast
    have "grow (Suc n) a (2 ^ i) = 2 ^ (i + Suc j)"
      using True j(2) by simp
    with j show ?thesis
      by (intro exI [of _ "Suc j"]) simp
  next
    case False
    then have "grow (Suc n) a (2 ^ i) = 2 ^ (i + 0)" by simp
    with False Suc.prems(2) show ?thesis
      by (intro exI [of _ 0]) simp
  qed
qed

lemma scale_small:
  assumes "0 < a" and "a < 2 ^ 52" and "2 ^ 52 \<le> a * 2 ^ 1074"
  shows "\<exists>j. scale a = 2 ^ j \<and> 2 ^ 52 \<le> a * 2 ^ j \<and> a * 2 ^ j < 2 ^ 53"
proof -
  have "a * 2 ^ 0 < 2 ^ 53" using assms(2) by simp
  moreover have "2 ^ 52 \<le> a * 2 ^ (0 + 1074)" using assms(3) by simp
  ultimately obtain j where "grow 1074 a (2 ^ 0) = 2 ^ (0 + j)" "2 ^ 52 \<le> a * 2 ^ (0 + j)"
    "a * 2 ^ (0 + j) < 2 ^ 53"
    using grow_spec [OF assms(1), of 0 1074] by blast
  then show ?thesis
    using assms(2) by (auto simp: scale_def)
qed

lemma scale_large:
  assumes "2 ^ 52 \<le> a" and "a < 2 ^ 53"
  shows "scale a = 1"
  using assms by (simp add: scale_def eval_nat_numeral)

lemma fl_zero: "fl 0 = 0"
  by (simp add: fl_def)

lemma fl_pos_scaled:
  assumes "0 < q" and "scale q = 2 ^ j"
  shows "fl q = real_of_int (round_half_even (q * 2 ^ j)) / 2 ^ j"
  using assms by (simp add: fl_def)

lemma fl_int_quotient:
  fixes a b :: int
  assumes "0 \<le> a" and "a < 2 ^ 53" and "0 < b" and "b < 2 ^ 53"
  shows "\<lfloor>fl (real_of_int a / real_of_int b)\<rfloor> = \<lfloor>real_of_int a / real_of_int b\<rfloor> \<and>
         \<lceil>fl (real_of_int a / real_of_int b)\<rceil> = \<lceil>real_of_int a / real_of_int b\<rceil>"
proof (cases "a = 0")
  case True
  then show ?thesis by (simp add: fl_zero)
next
  case False
  define q where "q = real_of_int a / real_of_int b"
  have a1: "1 \<le> a" using False assms(1) by simp
  have bpos: "0 < real_of_int b" using assms(3) by simp
  have qpos: "0 < q" using a1 bpos by (simp add: q_def)
  have qb: "q * real_of_int b = real_of_int a" using bpos by (simp add: q_def)
  have alt: "real_of_int a < 2 ^ 53" using assms(2) by (metis of_int_less_iff of_int_numeral of_int_power)
  have blt: "real_of_int b < 2 ^ 53" using assms(4) by (metis of_int_less_iff of_int_numeral of_int_power)
  have b1: "1 \<le> real_of_int b" using assms(3) by simp
  have qlt: "q < 2 ^ 53"
  proof -
    have "q \<le> real_of_int a" using b1 a1 by (simp add: q_def field_simps mult_le_cancel_left1)
    with alt show ?thesis by simp
  qed
  show ?thesis
  proof (cases "2 ^ 52 \<le> q")
    case True
    have "b = 1"
    proof (rule ccontr)
      assume "b \<noteq> 1"
      then have "2 \<le> real_of_int b" using assms(3) by simp
      then have "q * 2 \<le> q * real_of_int b" using qpos by simp
      then have "q * 2 < 2 ^ 53" using qb alt by simp
      then show False using True by simp
    qed
    then have qa: "q = real_of_int a" by (simp add: q_def)
    have "scale q = 2 ^ 0" using scale_large [OF True qlt] by simp
    from fl_pos_scaled [OF qpos this] have "fl q = real_of_int a"
      by (simp add: qa round_half_even_int)
    then show ?thesis unfolding q_def [symmetric] by (simp add: qa)
  next
    case False
    then have small: "q < 2 ^ 52" by simp
    have "1 \<le> q * 2 ^ 53"
    proof -
      have "q * real_of_int b \<le> q * 2 ^ 53" using qpos blt by simp
      moreover have "1 \<le> q * real_of_int b" using qb a1 by simp
      ultimately show ?thesis by simp
    qed
    then have "2 ^ 52 * 1 \<le> 2 ^ 52 * (q * 2 ^ 53)" by (intro mult_left_mono) simp_all
    also have "\<dots> \<le> q * 2 ^ 1074"
    proof -
      have "(2::real) ^ 52 * 2 ^ 53 \<le> 2 ^ 1074" by simp
      then have "q * (2 ^ 52 * 2 ^ 53) \<le> q * 2 ^ 1074" using qpos by (intro mult_left_mono) simp_all
      then show ?thesis by (simp add: mult.assoc mult.left_commute)
    qed
    finally have norm: "2 ^ 52 \<le> q * 2 ^ 1074" by simp
    from scale_small [OF qpos small norm]
    obtain j where j: "scale q = 2 ^ j" "2 ^ 52 \<le> q * 2 ^ j" "q * 2 ^ j < 2 ^ 53" by blast
    define r where "r = round_half_even (q * 2 ^ j)"
    have flq: "fl q = real_of_int r / 2 ^ j"
      unfolding r_def by (rule fl_pos_scaled [OF qpos j(1)])
    have close: "\<bar>real_of_int r - q * 2 ^ j\<bar> \<le> 1 / 2"
      unfolding r_def by (rule round_half_even_close)
    have kpos: "(0::real) < 2 ^ j" by simp
    \<comment> \<open>the scale exceeds half the divisor\<close>
    have half: "real_of_int b < 2 * 2 ^ j"
    proof -
      have "2 ^ 52 * real_of_int b \<le> q * 2 ^ j * real_of_int b"
        using j(2) bpos by (intro mult_right_mono) simp_all
      also have "\<dots> = real_of_int a * 2 ^ j" using qb by (simp add: mult.assoc mult.commute mult.left_commute)
      also have "\<dots> < 2 ^ 53 * 2 ^ j" using alt kpos by (intro mult_strict_right_mono) simp_all
      finally have "2 ^ 52 * real_of_int b < 2 ^ 52 * (2 * 2 ^ j)" by simp
      then show ?thesis by simp
    qed
    have fl_ge: "real_of_int m \<le> fl q" if "real_of_int m \<le> q" for m :: int
    proof -
      have "real_of_int m * 2 ^ j \<le> q * 2 ^ j" using that kpos by simp
      then have "real_of_int m * 2 ^ j - 1 < real_of_int r" using close by linarith
      then have "real_of_int (m * 2 ^ j) - 1 < real_of_int r" by simp
      then have "m * 2 ^ j \<le> r" by linarith
      then have "real_of_int (m * 2 ^ j) \<le> real_of_int r" by (simp only: of_int_le_iff)
      then have "real_of_int m * 2 ^ j \<le> real_of_int r" by simp
      then show ?thesis unfolding flq using kpos by (simp add: field_simps)
    qed
    have fl_le: "fl q \<le> real_of_int m" if "q \<le> real_of_int m" for m :: int
    proof -
      have "q * 2 ^ j \<le> real_of_int m * 2 ^ j" using that kpos by simp
      then have "real_of_int r < real_of_int m * 2 ^ j + 1" using close by linarith
      then have "real_of_int r < real_of_int (m * 2 ^ j) + 1" by simp
      then have "r \<le> m * 2 ^ j" by linarith
      then have "real_of_int r \<le> real_of_int (m * 2 ^ j)" by (simp only: of_int_le_iff)
      then have "real_of_int r \<le> real_of_int m * 2 ^ j" by simp
      then show ?thesis unfolding flq using kpos by (simp add: field_simps)
    qed
    have fl_gt: "real_of_int m < fl q" if "real_of_int m < q" for m :: int
    proof -
      have "real_of_int m * real_of_int b < real_of_int a" using that bpos qb
        by (metis mult_strict_right_mono)
      then have "real_of_int (m * b) < real_of_int a" by simp
      then have "m * b + 1 \<le> a" by linarith
      then have "real_of_int (m * b + 1) \<le> real_of_int a" by (simp only: of_int_le_iff)
      then have "real_of_int m * real_of_int b + 1 \<le> q * real_of_int b" using qb by simp
      then have "(real_of_int m * real_of_int b + 1) * 2 ^ j \<le> q * real_of_int b * 2 ^ j"
        using kpos by simp
      then have "real_of_int m * 2 ^ j * real_of_int b + 2 ^ j \<le> q * 2 ^ j * real_of_int b"
        by (simp add: algebra_simps)
      moreover have "real_of_int b / 2 < 2 ^ j" using half by simp
      ultimately have "real_of_int m * 2 ^ j * real_of_int b + real_of_int b / 2
                         < q * 2 ^ j * real_of_int b" by linarith
      then have "(real_of_int m * 2 ^ j + 1 / 2) * real_of_int b < q * 2 ^ j * real_of_int b"
        by (simp add: algebra_simps)
      then have "real_of_int m * 2 ^ j + 1 / 2 < q * 2 ^ j"
        using bpos by (simp only: mult_less_cancel_right_pos)
      then have "real_of_int m * 2 ^ j < real_of_int r" using close by linarith
      then show ?thesis unfolding flq using kpos by (simp add: field_simps)
    qed
    have fl_lt: "fl q < real_of_int m" if "q < real_of_int m" for m :: int
    proof -
      have "real_of_int a < real_of_int m * real_of_int b" using that bpos qb
        by (metis mult_strict_right_mono)
      then have "real_of_int a < real_of_int (m * b)" by simp
      then have "a + 1 \<le> m * b" by linarith
      then have "real_of_int (a + 1) \<le> real_of_int (m * b)" by (simp only: of_int_le_iff)
      then have "q * real_of_int b + 1 \<le> real_of_int m * real_of_int b" using qb by simp
      then have "(q * real_of_int b + 1) * 2 ^ j \<le> real_of_int m * real_of_int b * 2 ^ j"
        using kpos by simp
      then have "q * 2 ^ j * real_of_int b + 2 ^ j \<le> real_of_int m * 2 ^ j * real_of_int b"
        by (simp add: algebra_simps)
      moreover have "real_of_int b / 2 < 2 ^ j" using half by simp
      ultimately have "q * 2 ^ j * real_of_int b + real_of_int b / 2
                         < real_of_int m * 2 ^ j * real_of_int b" by linarith
      then have "(q * 2 ^ j + 1 / 2) * real_of_int b < real_of_int m * 2 ^ j * real_of_int b"
        by (simp add: algebra_simps)
      then have "q * 2 ^ j + 1 / 2 < real_of_int m * 2 ^ j"
        using bpos by (simp only: mult_less_cancel_right_pos)
      then have "real_of_int r < real_of_int m * 2 ^ j" using close by linarith
      then show ?thesis unfolding flq using kpos by (simp add: field_simps)
    qed
    have "\<lfloor>fl q\<rfloor> = \<lfloor>q\<rfloor>"
    proof (rule floor_unique)
      show "real_of_int \<lfloor>q\<rfloor> \<le> fl q" by (rule fl_ge) simp
      have "fl q < real_of_int (\<lfloor>q\<rfloor> + 1)" by (rule fl_lt) linarith
      then show "fl q < real_of_int \<lfloor>q\<rfloor> + 1" by simp
    qed
    moreover have "\<lceil>fl q\<rceil> = \<lceil>q\<rceil>"
    proof (rule ceiling_unique)
      have "real_of_int (\<lceil>q\<rceil> - 1) < fl q" by (rule fl_gt) linarith
      then show "real_of_int \<lceil>q\<rceil> - 1 < fl q" by simp
      show "fl q \<le> real_of_int \<lceil>q\<rceil>" by (rule fl_le) simp
    qed
    ultimately show ?thesis unfolding q_def by simp
  qed
qed











subsection \<open>Identity store\<close>

lemma trim_Nil_iff: "trim u = [] \<longleftrightarrow> list_all is_space u"
proof (cases "dropWhile is_space u = []")
  case True
  have "trim u = []" unfolding trim_def True by simp
  moreover from True have "list_all is_space u"
    by (simp add: list_all_iff dropWhile_eq_Nil_conv)
  ultimately show ?thesis by simp
next
  case False
  then have "\<not> is_space (hd (dropWhile is_space u))" by (rule hd_dropWhile)
  moreover have "hd (dropWhile is_space u) \<in> set (dropWhile is_space u)"
    using False by simp
  ultimately have "trim u \<noteq> []"
    by (auto simp: trim_def dropWhile_eq_Nil_conv)
  moreover have "\<not> list_all is_space u"
    using False by (simp add: list_all_iff dropWhile_eq_Nil_conv)
  ultimately show ?thesis by simp
qed

lemma generateUserId_nonempty: "fst (generateUserId e s) \<noteq> []"
  by (simp add: generateUserId_def Let_def ascii_def)

lemma autoInit_stored:
  "hasUserId s \<Longrightarrow>
     \<exists>u. storage s = Some u \<and> u \<noteq> [] \<and> autoInit e s = (u, setInputValue UserIdField u s)"
  by (cases "storage s") (auto simp: autoInit_def hasUserId_def getUserId_def)

lemma autoInit_fresh:
  "\<not> hasUserId s \<Longrightarrow>
     fst (autoInit e s) = fst (generateUserId e s) \<and>
     storage (snd (autoInit e s)) = Some (fst (generateUserId e s))"
  by (auto simp: autoInit_def hasUserId_def getUserId_def setInputValue_def showSuccess_def
      emit_def setUserId_def split: option.splits prod.splits)

lemma autoInit_persisted:
  "hasUserId (snd (autoInit e s)) \<and> storage (snd (autoInit e s)) = Some (fst (autoInit e s))"
proof (cases "hasUserId s")
  case True
  from autoInit_stored [OF True, of e] show ?thesis
    by (auto simp: setInputValue_def emit_def hasUserId_def getUserId_def)
next
  case False
  from autoInit_fresh [OF False, of e] generateUserId_nonempty [of e s] show ?thesis
    by (simp add: hasUserId_def getUserId_def)
qed

lemma autoInit_again: "fst (autoInit e' (snd (autoInit e s))) = fst (autoInit e s) \<and>
  storage (snd (autoInit e' (snd (autoInit e s)))) = storage (snd (autoInit e s))"
proof -
  have h: "hasUserId (snd (autoInit e s))" and st: "storage (snd (autoInit e s)) = Some (fst (autoInit e s))"
    using autoInit_persisted [of e s] by simp_all
  from autoInit_stored [OF h, of e'] st show ?thesis
    by (auto simp: setInputValue_def emit_def)
qed

text \<open>
  Claim C8. \<open>autoInit\<close> is idempotent. In a state where an identifier is stored (a
  non-empty string, as \<open>hasUserId\<close> tests it), \<open>autoInit\<close> returns that identifier,
  leaves the stored identity unchanged and generates nothing. In a state without one it
  returns the identifier that \<open>generateUserId\<close> produces, which is not empty, and
  persists it. In every state a second call, whatever the clock and the random numbers
  then are, returns the identifier of the first call and leaves the storage as the first
  call left it.
\<close>

theorem autoInit_idempotent:
  "(hasUserId s \<longrightarrow>
      storage s = Some (fst (autoInit e s)) \<and>
      storage (snd (autoInit e s)) = storage s \<and>
      draws (snd (autoInit e s)) = draws s) \<and>
   (\<not> hasUserId s \<longrightarrow>
      fst (autoInit e s) = fst (generateUserId e s) \<and>
      fst (autoInit e s) \<noteq> [] \<and>
      storage (snd (autoInit e s)) = Some (fst (autoInit e s))) \<and>
   fst (autoInit e' (snd (autoInit e s))) = fst (autoInit e s) \<and>
   storage (snd (autoInit e' (snd (autoInit e s)))) = storage (snd (autoInit e s))"
proof -
  have a: "hasUserId s \<longrightarrow>
      storage s = Some (fst (autoInit e s)) \<and>
      storage (snd (autoInit e s)) = storage s \<and>
      draws (snd (autoInit e s)) = draws s"
    using autoInit_stored [of s e] by (auto simp: setInputValue_def emit_def)
  have b: "\<not> hasUserId s \<longrightarrow>
      fst (autoInit e s) = fst (generateUserId e s) \<and>
      fst (autoInit e s) \<noteq> [] \<and>
      storage (snd (autoInit e s)) = Some (fst (autoInit e s))"
    using autoInit_fresh [of s e] generateUserId_nonempty [of e s] by simp
  from a b autoInit_again [of e' e s] show ?thesis by blast
qed

text \<open>
  The theorem at a state with the stored identifier \<open>user_17_abc\<close> and at a state with
  an empty storage, where the clock reads 1730000000000 and the random number prints as
  \<open>0.4fzyo82mvyr\<close>.
\<close>

theorem autoInit_idempotent_witness:
  "hasUserId (page_storing (Some (ascii ''user_17_abc''))) \<and>
   fst (autoInit sample_env
          (page_storing (Some (ascii ''user_17_abc'')))) = ascii ''user_17_abc'' \<and>
   \<not> hasUserId (page_storing None) \<and>
   fst (autoInit sample_env
          (page_storing None)) = ascii ''user_1730000000000_4fzyo82'' \<and>
   storage (snd (autoInit sample_env
          (page_storing None))) = Some (ascii ''user_1730000000000_4fzyo82'') \<and>
   fst (autoInit later_env
     (snd (autoInit sample_env
          (page_storing None)))) = ascii ''user_1730000000000_4fzyo82''"
  using autoInit_idempotent [of "page_storing (Some (ascii ''user_17_abc''))"
      "sample_env"
      "later_env"]
    autoInit_idempotent [of "page_storing None"
      "sample_env"
      "later_env"]
  by (simp add: sample_env_def later_env_def page_storing_def hasUserId_def getUserId_def generateUserId_def
      substring_def decimal.simps ascii_def)

text \<open>
  Claim C9. \<open>requireAuth\<close> returns true in every state. A state with a stored identity
  is left as it is; in a state without one \<open>autoInit\<close> runs first, so that an identity is
  stored when \<open>requireAuth\<close> returns.
\<close>

theorem requireAuth_true:
  "fst (requireAuth e s) \<and>
   isAuthenticated (snd (requireAuth e s)) \<and>
   snd (requireAuth e s) = (if isAuthenticated s then s else snd (autoInit e s))"
  using autoInit_persisted [of e s]
  by (simp add: requireAuth_def isAuthenticated_def)

text \<open>The theorem at an empty storage: an identity is stored afterwards.\<close>

theorem requireAuth_true_witness:
  "fst (requireAuth sample_env
          (page_storing None)) \<and>
   \<not> isAuthenticated (page_storing None) \<and>
   storage (snd (requireAuth sample_env
          (page_storing None))) = Some (ascii ''user_1730000000000_4fzyo82'')"
  using requireAuth_true [of "sample_env"
      "page_storing None"]
  by (simp add: sample_env_def page_storing_def isAuthenticated_def hasUserId_def getUserId_def
      autoInit_def
      generateUserId_def substring_def decimal.simps ascii_def setUserId_def showSuccess_def
      setInputValue_def emit_def)

text \<open>
  Claim C10. \<open>register\<close> returns false exactly when the user id is absent, empty or
  consists only of white space; then the only effect is the error notification, and the
  stored identity is as before. Otherwise it returns true and the stored identity is the
  trimmed user id, which is not empty.
\<close>

theorem register_blank_iff:
  "(\<not> fst (register userId s)) = blank userId \<and>
   (blank userId \<longrightarrow>
      snd (register userId s) = showError EnterUserId s \<and>
      storage (snd (register userId s)) = storage s \<and>
      draws (snd (register userId s)) = draws s) \<and>
   (\<forall>u. userId = Some u \<and> \<not> blank userId \<longrightarrow>
      fst (register userId s) \<and>
      storage (snd (register userId s)) = Some (trim u) \<and>
      trim u \<noteq> [])"
  by (cases userId)
    (auto simp: register_def blank_def trim_Nil_iff showError_def showSuccess_def emit_def
      setUserId_def Let_def)

text \<open>The theorem at a user id of one space and at the user id \<open>bob\<close> with spaces around it.\<close>

theorem register_blank_iff_witness:
  "blank (Some (ascii '' '')) \<and> blank None \<and> \<not> blank (Some (ascii '' bob  '')) \<and>
   \<not> fst (register (Some (ascii '' '')) (page_storing (Some (ascii ''al'')))) \<and>
   storage (snd (register (Some (ascii '' '')) (page_storing (Some (ascii ''al'')))))
     = Some (ascii ''al'') \<and>
   fst (register (Some (ascii '' bob  '')) (page_storing (Some (ascii ''al'')))) \<and>
   storage (snd (register (Some (ascii '' bob  '')) (page_storing (Some (ascii ''al'')))))
     = Some (ascii ''bob'')"
  using register_blank_iff [of "Some (ascii '' '')" "page_storing (Some (ascii ''al''))"]
    register_blank_iff [of "Some (ascii '' bob  '')" "page_storing (Some (ascii ''al''))"]
  by (simp add: page_storing_def blank_def ascii_def is_space_def trim_def showError_def emit_def)

subsection \<open>Calculators\<close>

lemma requireAuth_trace:
  "trace (snd (requireAuth e s)) =
     trace s @ (if hasUserId s then []
                else [Notify SuccessNote (Welcome (fst (generateUserId e s))),
                      SetInput UserIdField (fst (generateUserId e s))])"
  by (cases "storage s")
    (auto simp: requireAuth_def isAuthenticated_def hasUserId_def getUserId_def autoInit_def
      generateUserId_def Let_def showSuccess_def setInputValue_def setUserId_def emit_def)

lemma requireAuth_requests: "requests (snd (requireAuth e s)) = requests s"
  by (simp add: requests_def requireAuth_trace)

lemma not_positive_iff:
  fixes x :: "('a::{zero,linorder}) num"
  shows "\<not> positive x \<longleftrightarrow> falsy x \<or> le_zero x"
  by (cases x) (auto simp: positive_def falsy_def le_zero_def)

lemma getCurrentUserId_stored:
  "storage s = Some u \<Longrightarrow> u \<noteq> [] \<Longrightarrow> getCurrentUserId e s = (u, s)"
  by (simp add: getCurrentUserId_def getUserId_def)

lemma requireAuth_stored:
  "\<exists>u. storage (snd (requireAuth e s)) = Some u \<and> u \<noteq> []"
proof -
  have "hasUserId (snd (requireAuth e s))"
    using autoInit_persisted [of e s]
    by (simp add: requireAuth_def isAuthenticated_def)
  then show ?thesis
    by (cases "storage (snd (requireAuth e s))") (auto simp: hasUserId_def getUserId_def)
qed

lemma requireAuth_selectedGender:
  "selectedGender (snd (requireAuth e s)) = selectedGender s"
  by (cases "storage s")
    (auto simp: requireAuth_def isAuthenticated_def hasUserId_def getUserId_def autoInit_def
      generateUserId_def Let_def showSuccess_def setInputValue_def setUserId_def emit_def)

lemma calories_invalid:
  assumes "\<not> truthy (selectedGender s) \<or> \<not> positive age \<or> \<not> positive weight \<or> \<not> positive height"
  shows "CaloriesCalculator_calculate e age weight height activity reply s =
           showError (if \<not> truthy (selectedGender s) then ChooseGender else EnterValidValues)
             (snd (requireAuth e s))"
proof -
  obtain s1 where r: "requireAuth e s = (True, s1)"
    by (simp add: requireAuth_def)
  have g: "selectedGender s1 = selectedGender s"
    using requireAuth_selectedGender [of e s] r by simp
  show ?thesis
    using assms
    by (auto simp: CaloriesCalculator_calculate_def checkAuth_def r g not_positive_iff)
qed

lemma calories_valid:
  assumes "selectedGender s = Some g" and "g \<noteq> []" and "0 < a" and "0 < w" and "0 < h"
    and "storage (snd (requireAuth e s)) = Some user_id"
  shows "requests (CaloriesCalculator_calculate e (Num a) (Num w) (Num h) activity reply s) =
           requests s @ [PostCalories user_id a w h g activity]"
proof -
  obtain s1 where r: "requireAuth e s = (True, s1)"
    by (simp add: requireAuth_def)
  have g: "selectedGender s1 = Some g"
    using requireAuth_selectedGender [of e s] r assms(1) by simp
  have u: "storage s1 = Some user_id" "user_id \<noteq> []"
    using requireAuth_stored [of e s] r assms(6) by auto
  have q: "requests s1 = requests s"
    using requireAuth_requests [of e s] r by simp
  show ?thesis
    using assms(2-5) q
    by (auto simp: CaloriesCalculator_calculate_def checkAuth_def r g falsy_def le_zero_def
        calculator_getUserId_def getCurrentUserId_stored [OF u] requests_def emit_def
        showError_def showSuccess_def showResult_def Let_def
        split: reply.splits option.splits)
qed

text \<open>
  Claim C5. For positive systolic and diastolic values with the systolic one not above the
  diastolic one, \<open>BloodPressureCalculator.calculate\<close> ends with the error notification
  that the systolic pressure must be the higher one. Whatever the backend would answer,
  no request is sent and no result is shown: the only other effects are those of
  \<open>requireAuth\<close>, the welcome notification and the filled user id field when no identity
  was stored.
\<close>

theorem bp_inverted_rejected:
  assumes "0 < sys" and "0 < dia" and "sys \<le> dia"
  shows "trace (BloodPressureCalculator_calculate e (Num sys) (Num dia) reply s) =
           trace (snd (requireAuth e s)) @ [Notify ErrorNote SystolicMustBeHigher] \<and>
         trace (snd (requireAuth e s)) =
           trace s @ (if hasUserId s then []
                      else [Notify SuccessNote (Welcome (fst (generateUserId e s))),
                            SetInput UserIdField (fst (generateUserId e s))]) \<and>
         requests (BloodPressureCalculator_calculate e (Num sys) (Num dia) reply s) = requests s"
proof -
  obtain s1 where r: "requireAuth e s = (True, s1)"
    by (simp add: requireAuth_def)
  have c: "BloodPressureCalculator_calculate e (Num sys) (Num dia) reply s =
             showError SystolicMustBeHigher (snd (requireAuth e s))"
    using assms
    by (simp add: BloodPressureCalculator_calculate_def checkAuth_def falsy_def le_zero_def
        num_le_def r)
  show ?thesis
    unfolding c
    by (simp add: showError_def emit_def requireAuth_trace requests_def)
qed

text \<open>The theorem at the reading 120 over 125 of the specification.\<close>

theorem bp_inverted_rejected_witness:
  "trace (BloodPressureCalculator_calculate
            sample_env
            (Num 120) (Num 125)
            (Resolved (Some \<lparr>result = Some 120, interpretationText = None\<rparr>))
            (page_storing (Some (ascii ''u1''))))
     = [Notify ErrorNote SystolicMustBeHigher] \<and>
   requests (BloodPressureCalculator_calculate
            sample_env
            (Num 120) (Num 125)
            (Resolved (Some \<lparr>result = Some 120, interpretationText = None\<rparr>))
            (page_storing (Some (ascii ''u1'')))) = []"
  using bp_inverted_rejected [of 120 125
      "sample_env"
      "Resolved (Some \<lparr>result = Some 120, interpretationText = None\<rparr>)"
      "page_storing (Some (ascii ''u1''))"]
  by (simp add: page_storing_def hasUserId_def getUserId_def ascii_def requests_def)


subsection \<open>Body mass index\<close>

lemma getIMTCategory_intervals:
  "(b < 16 \<longrightarrow> getIMTCategory b = \<lparr>categoryClass = Danger, categoryText = SevereDeficit\<rparr>) \<and>
   (16 \<le> b \<and> b < 18.5 \<longrightarrow>
      getIMTCategory b = \<lparr>categoryClass = Warning, categoryText = Underweight\<rparr>) \<and>
   (18.5 \<le> b \<and> b < 25 \<longrightarrow>
      getIMTCategory b = \<lparr>categoryClass = Success, categoryText = NormalWeight\<rparr>) \<and>
   (25 \<le> b \<and> b < 30 \<longrightarrow>
      getIMTCategory b = \<lparr>categoryClass = Warning, categoryText = Overweight\<rparr>) \<and>
   (30 \<le> b \<and> b < 35 \<longrightarrow>
      getIMTCategory b = \<lparr>categoryClass = Danger, categoryText = ObesityI\<rparr>) \<and>
   (35 \<le> b \<and> b < 40 \<longrightarrow>
      getIMTCategory b = \<lparr>categoryClass = Danger, categoryText = ObesityII\<rparr>) \<and>
   (40 \<le> b \<longrightarrow> getIMTCategory b = \<lparr>categoryClass = Danger, categoryText = ObesityIII\<rparr>)"
  by (simp add: getIMTCategory_def)

lemma imt_valid_trace:
  assumes "0 < w" and "0 < h"
  shows "\<exists>user_id. storage (snd (requireAuth e s)) = Some user_id \<and>
           trace (IMTCalculator_calculate e (Num w) (Num h)
                    (Resolved (Some \<lparr>result = Some b, interpretationText = i\<rparr>)) s) =
             trace (snd (requireAuth e s)) @
               [Request (PostIMT user_id w h),
                ShowResult ImtResult (Fixed (toFixed 1 (Num b)))
                  (interpretation_or i (CategoryText (categoryText (getIMTCategory b))))
                  KgPerM2 (categoryClass (getIMTCategory b)),
                Notify SuccessNote IMTSaved,
                LoadHistoryLater]"
proof -
  obtain s1 where r: "requireAuth e s = (True, s1)"
    by (simp add: requireAuth_def)
  obtain user_id where u: "storage s1 = Some user_id" "user_id \<noteq> []"
    using requireAuth_stored [of e s] r by auto
  have "trace (IMTCalculator_calculate e (Num w) (Num h)
                    (Resolved (Some \<lparr>result = Some b, interpretationText = i\<rparr>)) s) =
             trace s1 @
               [Request (PostIMT user_id w h),
                ShowResult ImtResult (Fixed (toFixed 1 (Num b)))
                  (interpretation_or i (CategoryText (categoryText (getIMTCategory b))))
                  KgPerM2 (categoryClass (getIMTCategory b)),
                Notify SuccessNote IMTSaved,
                LoadHistoryLater]"
    using assms
    by (simp add: IMTCalculator_calculate_def checkAuth_def r falsy_def le_zero_def
        calculator_getUserId_def getCurrentUserId_stored [OF u] emit_def
        showSuccess_def showResult_def Let_def)
  with u r show ?thesis by simp
qed

text \<open>
  Claim C1. For every BMI value \<open>b\<close>, \<open>getIMTCategory\<close> gives the category and the
  severity of the table: below 16 severe underweight with danger, from 16 up to 18.5
  underweight with warning, from 18.5 up to 25 normal with success, from 25 up to 30
  overweight with warning, from 30 up to 35 obesity I, from 35 up to 40 obesity II and
  from 40 on obesity III, all three with danger. The value displayed is \<open>b.toFixed(1)\<close>:
  for \<open>b\<close> below \<open>10\<^sup>2\<^sup>1\<close> in absolute value, where \<open>toFixed\<close> prints digits, it has one
  digit after the point and differs from \<open>b\<close> by at most 0.05. For a valid weight and
  height and a response whose result is \<open>b\<close>, \<open>calculate\<close> shows that value with the
  class of the category, and the category text unless the backend sent its own.
\<close>

theorem imt_category_table:
  "(b < 16 \<longrightarrow> getIMTCategory b = \<lparr>categoryClass = Danger, categoryText = SevereDeficit\<rparr>) \<and>
   (16 \<le> b \<and> b < 18.5 \<longrightarrow>
      getIMTCategory b = \<lparr>categoryClass = Warning, categoryText = Underweight\<rparr>) \<and>
   (18.5 \<le> b \<and> b < 25 \<longrightarrow>
      getIMTCategory b = \<lparr>categoryClass = Success, categoryText = NormalWeight\<rparr>) \<and>
   (25 \<le> b \<and> b < 30 \<longrightarrow>
      getIMTCategory b = \<lparr>categoryClass = Warning, categoryText = Overweight\<rparr>) \<and>
   (30 \<le> b \<and> b < 35 \<longrightarrow>
      getIMTCategory b = \<lparr>categoryClass = Danger, categoryText = ObesityI\<rparr>) \<and>
   (35 \<le> b \<and> b < 40 \<longrightarrow>
      getIMTCategory b = \<lparr>categoryClass = Danger, categoryText = ObesityII\<rparr>) \<and>
   (40 \<le> b \<longrightarrow> getIMTCategory b = \<lparr>categoryClass = Danger, categoryText = ObesityIII\<rparr>) \<and>
   (\<bar>b\<bar> < 10 ^ 21 \<longrightarrow>
      (\<exists>n. toFixed 1 (Num b) = Digits (b < 0) n 1 \<and>
           \<bar>(if b < 0 then - 1 else 1) * real n / 10 - b\<bar> \<le> 1 / 20)) \<and>
   (\<forall>w h. 0 < w \<and> 0 < h \<longrightarrow>
      (\<exists>user_id. storage (snd (requireAuth e s)) = Some user_id \<and>
         trace (IMTCalculator_calculate e (Num w) (Num h)
                  (Resolved (Some \<lparr>result = Some b, interpretationText = i\<rparr>)) s) =
           trace (snd (requireAuth e s)) @
             [Request (PostIMT user_id w h),
              ShowResult ImtResult (Fixed (toFixed 1 (Num b)))
                (interpretation_or i (CategoryText (categoryText (getIMTCategory b))))
                KgPerM2 (categoryClass (getIMTCategory b)),
              Notify SuccessNote IMTSaved,
              LoadHistoryLater]))"
proof -
  have d: "\<bar>b\<bar> < 10 ^ 21 \<longrightarrow>
      (\<exists>n. toFixed 1 (Num b) = Digits (b < 0) n 1 \<and>
           \<bar>(if b < 0 then - 1 else 1) * real n / 10 - b\<bar> \<le> 1 / 20)"
    using toFixed_nearest [of b 1] by simp
  have t: "\<forall>w h. 0 < w \<and> 0 < h \<longrightarrow>
      (\<exists>user_id. storage (snd (requireAuth e s)) = Some user_id \<and>
         trace (IMTCalculator_calculate e (Num w) (Num h)
                  (Resolved (Some \<lparr>result = Some b, interpretationText = i\<rparr>)) s) =
           trace (snd (requireAuth e s)) @
             [Request (PostIMT user_id w h),
              ShowResult ImtResult (Fixed (toFixed 1 (Num b)))
                (interpretation_or i (CategoryText (categoryText (getIMTCategory b))))
                KgPerM2 (categoryClass (getIMTCategory b)),
              Notify SuccessNote IMTSaved,
              LoadHistoryLater])"
    using imt_valid_trace by blast
  from getIMTCategory_intervals [of b] d t show ?thesis by blast
qed

text \<open>
  The theorem at the boundaries of the table, at 15.9 and at 18.49999, which is shown as
  18.5 and still classified as underweight.
\<close>

theorem imt_category_table_witness:
  "getIMTCategory 15.9 = \<lparr>categoryClass = Danger, categoryText = SevereDeficit\<rparr> \<and>
   getIMTCategory 16 = \<lparr>categoryClass = Warning, categoryText = Underweight\<rparr> \<and>
   getIMTCategory 18.49999 = \<lparr>categoryClass = Warning, categoryText = Underweight\<rparr> \<and>
   getIMTCategory 18.5 = \<lparr>categoryClass = Success, categoryText = NormalWeight\<rparr> \<and>
   getIMTCategory 25 = \<lparr>categoryClass = Warning, categoryText = Overweight\<rparr> \<and>
   getIMTCategory 30 = \<lparr>categoryClass = Danger, categoryText = ObesityI\<rparr> \<and>
   getIMTCategory 35 = \<lparr>categoryClass = Danger, categoryText = ObesityII\<rparr> \<and>
   getIMTCategory 40 = \<lparr>categoryClass = Danger, categoryText = ObesityIII\<rparr> \<and>
   toFixed 1 (Num 18.49999) = Digits False 185 1 \<and>
   trace (IMTCalculator_calculate sample_env (Num 70) (Num 175)
            (Resolved (Some \<lparr>result = Some 18.49999, interpretationText = None\<rparr>))
            (page_storing (Some (ascii ''u1'')))) =
     [Request (PostIMT (ascii ''u1'') 70 175),
      ShowResult ImtResult (Fixed (Digits False 185 1)) (CategoryText Underweight) KgPerM2 Warning,
      Notify SuccessNote IMTSaved,
      LoadHistoryLater]"
  using imt_category_table [where b = "15.9" and e = sample_env and i = None
      and s = "page_storing (Some (ascii ''u1''))"]
    imt_category_table [where b = "16" and e = sample_env and i = None
      and s = "page_storing (Some (ascii ''u1''))"]
    imt_category_table [where b = "18.49999" and e = sample_env and i = None
      and s = "page_storing (Some (ascii ''u1''))"]
    imt_category_table [where b = "18.5" and e = sample_env and i = None
      and s = "page_storing (Some (ascii ''u1''))"]
    imt_category_table [where b = "25" and e = sample_env and i = None
      and s = "page_storing (Some (ascii ''u1''))"]
    imt_category_table [where b = "30" and e = sample_env and i = None
      and s = "page_storing (Some (ascii ''u1''))"]
    imt_category_table [where b = "35" and e = sample_env and i = None
      and s = "page_storing (Some (ascii ''u1''))"]
    imt_category_table [where b = "40" and e = sample_env and i = None
      and s = "page_storing (Some (ascii ''u1''))"]
  by (simp add: page_storing_def toFixed_def requireAuth_def isAuthenticated_def hasUserId_def
      getUserId_def ascii_def interpretation_or_def)

subsection \<open>Blood pressure classification\<close>

text \<open>
  Claim C2. For positive integers with the systolic value above the diastolic one (and a
  logged-in user, without whom the script classifies nothing), \<open>calculateBP\<close> shows the
  category and severity that the rules of the specification give when they are tried in
  order and the first match wins: below 120 and below 80 normal with success, else below
  130 and below 80 elevated with warning, else below 140 or below 90 stage I with warning,
  otherwise stage II with danger.
\<close>

theorem bp_rules_first_match:
  assumes "0 < dia" and "dia < sys" and "truthy (currentUser s)"
  shows "\<exists>category advice cls.
           first_match spec_bp_rules sys dia = Some (category, cls) \<and>
           classifyBP sys dia = (category, advice, cls) \<and>
           shownEvents (calculateBP (Num sys) (Num dia) s) =
             shownEvents s @ [BpBox sys dia category advice cls, AppSuccess PressureChecked]"
  using assms
  by (simp add: spec_bp_rules_def classifyBP_def calculateBP_def falsy_def app_showSuccess_def
      app_emit_def)

text \<open>The theorem at the four readings the specification names.\<close>

theorem bp_rules_first_match_witness:
  "shownEvents (calculateBP (Num 119) (Num 79) logged_in_page) =
     [BpBox 119 79 BpNormal Optimal Success, AppSuccess PressureChecked] \<and>
   shownEvents (calculateBP (Num 125) (Num 79) logged_in_page) =
     [BpBox 125 79 BpElevated WatchPressure Warning, AppSuccess PressureChecked] \<and>
   shownEvents (calculateBP (Num 135) (Num 85) logged_in_page) =
     [BpBox 135 85 BpStageI SeeDoctor Warning, AppSuccess PressureChecked] \<and>
   shownEvents (calculateBP (Num 150) (Num 95) logged_in_page) =
     [BpBox 150 95 BpStageII SeeDoctorUrgently Danger, AppSuccess PressureChecked] \<and>
   first_match spec_bp_rules (119::int) (79::int) = Some (BpNormal, Success) \<and>
   first_match spec_bp_rules (125::int) (79::int) = Some (BpElevated, Warning) \<and>
   first_match spec_bp_rules (135::int) (85::int) = Some (BpStageI, Warning) \<and>
   first_match spec_bp_rules (150::int) (95::int) = Some (BpStageII, Danger)"
  using bp_rules_first_match [of 79 119 "logged_in_page"]
    bp_rules_first_match [of 79 125 "logged_in_page"]
    bp_rules_first_match [of 85 135 "logged_in_page"]
    bp_rules_first_match [of 95 150 "logged_in_page"]
  by (simp add: logged_in_page_def classifyBP_def ascii_def)


subsection \<open>Calories\<close>










subsection \<open>Validation of the calories form\<close>

text \<open>
  Claim C4 says that a calories input with a missing or non-positive field, the activity
  factor among them, never reaches the API client. \<open>CaloriesCalculator.calculate\<close>
  checks the gender, the age, the weight and the height, and does not check the
  activity: with the other fields valid, a missing activity (\<open>NaN\<close>) and the activity - 1
  are both sent to the backend.
\<close>

theorem calories_activity_unchecked:
  "\<not> positive (NaN :: real num) \<and> \<not> positive (Num (- 1) :: real num) \<and>
   requests (calories_form (Some gender_m)) = [] \<and>
   requests (CaloriesCalculator_calculate sample_env (Num 30) (Num 70) (Num 175) NaN
               (Rejected None) (calories_form (Some gender_m))) =
     [PostCalories (ascii ''u1'') 30 70 175 gender_m NaN] \<and>
   requests (CaloriesCalculator_calculate sample_env (Num 30) (Num 70) (Num 175) (Num (- 1))
               (Rejected None) (calories_form (Some gender_m))) =
     [PostCalories (ascii ''u1'') 30 70 175 gender_m (Num (- 1))]"
  by (simp add: calories_form_def positive_def requests_def CaloriesCalculator_calculate_def
      checkAuth_def
      requireAuth_def isAuthenticated_def hasUserId_def getUserId_def ascii_def gender_m_def
      falsy_def le_zero_def calculator_getUserId_def getCurrentUserId_def emit_def
      showError_def message_or_def)

text \<open>
  Claim C4, amended. When no gender is selected, or the age, the weight or the height is
  missing or not above zero, \<open>calculate\<close> ends with an error notification (choose a gender,
  or enter valid values) and sends no request. When a gender is selected and the age, the
  weight and the height are above zero, the request is sent with the activity as it was
  read, whatever it is.
\<close>

theorem calories_validation:
  "(\<not> truthy (selectedGender s) \<or> \<not> positive age \<or> \<not> positive weight \<or> \<not> positive height \<longrightarrow>
      trace (CaloriesCalculator_calculate e age weight height activity reply s) =
        trace (snd (requireAuth e s)) @
          [Notify ErrorNote
             (if \<not> truthy (selectedGender s) then ChooseGender else EnterValidValues)] \<and>
      requests (CaloriesCalculator_calculate e age weight height activity reply s) = requests s) \<and>
   (\<forall>g a w h. selectedGender s = Some g \<and> g \<noteq> [] \<and>
        age = Num a \<and> 0 < a \<and> weight = Num w \<and> 0 < w \<and> height = Num h \<and> 0 < h \<longrightarrow>
      (\<exists>user_id. storage (snd (requireAuth e s)) = Some user_id \<and>
         requests (CaloriesCalculator_calculate e age weight height activity reply s) =
           requests s @ [PostCalories user_id a w h g activity]))"
proof -
  have inv: "\<not> truthy (selectedGender s) \<or> \<not> positive age \<or> \<not> positive weight \<or> \<not> positive height \<longrightarrow>
      trace (CaloriesCalculator_calculate e age weight height activity reply s) =
        trace (snd (requireAuth e s)) @
          [Notify ErrorNote
             (if \<not> truthy (selectedGender s) then ChooseGender else EnterValidValues)] \<and>
      requests (CaloriesCalculator_calculate e age weight height activity reply s) = requests s"
  proof
    assume a: "\<not> truthy (selectedGender s) \<or> \<not> positive age \<or> \<not> positive weight \<or> \<not> positive height"
    show "trace (CaloriesCalculator_calculate e age weight height activity reply s) =
        trace (snd (requireAuth e s)) @
          [Notify ErrorNote
             (if \<not> truthy (selectedGender s) then ChooseGender else EnterValidValues)] \<and>
      requests (CaloriesCalculator_calculate e age weight height activity reply s) = requests s"
      unfolding calories_invalid [OF a]
      by (simp add: showError_def emit_def requests_def requireAuth_trace)
  qed
  have val: "\<forall>g a w h. selectedGender s = Some g \<and> g \<noteq> [] \<and>
        age = Num a \<and> 0 < a \<and> weight = Num w \<and> 0 < w \<and> height = Num h \<and> 0 < h \<longrightarrow>
      (\<exists>user_id. storage (snd (requireAuth e s)) = Some user_id \<and>
         requests (CaloriesCalculator_calculate e age weight height activity reply s) =
           requests s @ [PostCalories user_id a w h g activity])"
    using requireAuth_stored [of e s] calories_valid [of s _ _ _ _ e]
    by (metis option.sel)
  from inv val show ?thesis by blast
qed

text \<open>
  The theorem at an age of zero, at a form without a gender, at a missing height, and at
  a valid form whose activity is missing.
\<close>

theorem calories_validation_witness:
  "\<not> positive (Num 0 :: int num) \<and>
   trace (CaloriesCalculator_calculate sample_env (Num 0) (Num 70) (Num 175) (Num 1.2)
            (Rejected None) (calories_form (Some gender_m))) =
     [Notify ErrorNote EnterValidValues] \<and>
   trace (CaloriesCalculator_calculate sample_env (Num 30) (Num 70) (Num 175) (Num 1.2)
            (Rejected None) (calories_form None)) =
     [Notify ErrorNote ChooseGender] \<and>
   requests (CaloriesCalculator_calculate sample_env (Num 30) (Num 70) NaN (Num 1.2)
               (Rejected None) (calories_form (Some gender_m))) = [] \<and>
   requests (CaloriesCalculator_calculate sample_env (Num 30) (Num 70) (Num 175) NaN
               (Rejected None) (calories_form (Some gender_m))) =
     [PostCalories (ascii ''u1'') 30 70 175 gender_m NaN]"
  using
    calories_validation [of "calories_form (Some gender_m)" "Num 0" "Num 70" "Num 175"
      sample_env "Num 1.2" "Rejected None"]
    calories_validation [of "calories_form None" "Num 30" "Num 70" "Num 175"
      sample_env "Num 1.2" "Rejected None"]
    calories_validation [of "calories_form (Some gender_m)" "Num 30" "Num 70" NaN
      sample_env "Num 1.2" "Rejected None"]
    calories_validation [of "calories_form (Some gender_m)" "Num 30" "Num 70" "Num 175"
      sample_env NaN "Rejected None"]
  by (simp add: calories_form_def positive_def requests_def requireAuth_def isAuthenticated_def
      hasUserId_def
      getUserId_def ascii_def gender_m_def)

subsection \<open>Pagination\<close>

lemma page_buttons_map:
  "page_buttons page endPage currentPage perPage =
     map (\<lambda>k. PageButton k ((k - 1) * perPage) (k = currentPage)) [page..endPage]"
proof (induction page endPage currentPage perPage rule: page_buttons.induct)
  case (1 page endPage currentPage perPage)
  show ?case
  proof (cases "page \<le> endPage")
    case True
    then show ?thesis
      using "1.IH" by (subst page_buttons.simps) (simp add: upto_rec1 [of page endPage])
  next
    case False
    then show ?thesis
      by (subst page_buttons.simps) simp
  qed
qed

lemma page_window_props:
  assumes "2 \<le> tp" and "1 \<le> cp"
  shows "1 \<le> fst (page_window cp tp) \<and>
         fst (page_window cp tp) \<le> snd (page_window cp tp) \<and>
         snd (page_window cp tp) \<le> tp \<and>
         snd (page_window cp tp) - fst (page_window cp tp) + 1 = min 5 tp \<and>
         (cp \<le> tp \<longrightarrow> fst (page_window cp tp) \<le> cp \<and> cp \<le> snd (page_window cp tp)) \<and>
         (3 \<le> cp \<and> cp + 2 \<le> tp \<longrightarrow>
            fst (page_window cp tp) = cp - 2 \<and> snd (page_window cp tp) = cp + 2)"
  using assms by (auto simp: page_window_def Let_def)

lemma totalPages_of_exact:
  assumes "0 \<le> t" and "t < 2 ^ 53" and "0 < l" and "l < 2 ^ 53"
  shows "totalPages_of t l = \<lceil>real_of_int t / real_of_int l\<rceil>"
  using fl_int_quotient [OF assms] by (simp add: totalPages_of_def double_div_def)

lemma currentPage_of_exact:
  assumes "0 \<le> off" and "off < 2 ^ 53" and "0 < l" and "l < 2 ^ 53"
  shows "currentPage_of off l = \<lfloor>real_of_int off / real_of_int l\<rfloor> + 1"
  using fl_int_quotient [OF assms] by (simp add: currentPage_of_def double_div_def)

lemma totalPages_of_bounds:
  assumes "0 \<le> t" and "t < 2 ^ 53" and "0 < l" and "l < 2 ^ 53"
  shows "(totalPages_of t l - 1) * l < t \<and> t \<le> totalPages_of t l * l"
proof -
  have p: "0 < real_of_int l" using assms(3) by simp
  let ?q = "real_of_int t / real_of_int l"
  have "real_of_int (totalPages_of t l) - 1 < ?q" "?q \<le> real_of_int (totalPages_of t l)"
    unfolding totalPages_of_exact [OF assms] by linarith+
  then have "(real_of_int (totalPages_of t l) - 1) * real_of_int l < real_of_int t"
       "real_of_int t \<le> real_of_int (totalPages_of t l) * real_of_int l"
    using p by (simp_all add: field_simps)
  then have "real_of_int ((totalPages_of t l - 1) * l) < real_of_int t"
       "real_of_int t \<le> real_of_int (totalPages_of t l * l)"
    by simp_all
  then show ?thesis by linarith
qed

lemma currentPage_of_bounds:
  assumes "0 \<le> off" and "off < 2 ^ 53" and "0 < l" and "l < 2 ^ 53"
  shows "(currentPage_of off l - 1) * l \<le> off \<and> off < currentPage_of off l * l"
proof -
  have p: "0 < real_of_int l" using assms(3) by simp
  let ?q = "real_of_int off / real_of_int l"
  have "real_of_int (currentPage_of off l) - 1 \<le> ?q" "?q < real_of_int (currentPage_of off l)"
    unfolding currentPage_of_exact [OF assms] by linarith+
  then have "(real_of_int (currentPage_of off l) - 1) * real_of_int l \<le> real_of_int off"
       "real_of_int off < real_of_int (currentPage_of off l) * real_of_int l"
    using p by (simp_all add: field_simps)
  then have "real_of_int ((currentPage_of off l - 1) * l) \<le> real_of_int off"
       "real_of_int off < real_of_int (currentPage_of off l * l)"
    by simp_all
  then show ?thesis by linarith
qed

lemma currentPage_of_ge1:
  assumes "0 \<le> off" and "off < 2 ^ 53" and "0 < l" and "l < 2 ^ 53"
  shows "1 \<le> currentPage_of off l"
proof -
  have "0 \<le> real_of_int off / real_of_int l" using assms(1) assms(3) by simp
  then show ?thesis unfolding currentPage_of_exact [OF assms] by linarith
qed

text \<open>
  Claim C6 says that an ellipsis is emitted exactly when the window of page numbers does
  not touch an edge, and that Previous and Next are disabled on the first and the last
  page. With 70 records, 10 per page and offset 30 the window is 2 to 6 of 7 pages: it
  touches neither edge, and the buttons 1 to 7 are emitted without an ellipsis. With 5
  records there is one page, and no button at all is emitted, only the number of records.
\<close>

theorem pagination_edge_counterexample:
  "totalPages_of 70 10 = 7 \<and> currentPage_of 30 10 = 4 \<and> page_window 4 7 = (2, 6) \<and>
   trace (renderPagination (history_at 30 70)) =
     [RenderPagination (Controls
        \<lparr>prevOffset = 20, prevDisabled = False,
         pageItems = [PageButton 1 0 False, PageButton 2 10 False, PageButton 3 20 False,
                      PageButton 4 30 True, PageButton 5 40 False, PageButton 6 50 False,
                      PageButton 7 60 False],
         nextOffset = 40, nextDisabled = False,
         shownFrom = 31, shownTo = 40, shownTotal = 70\<rparr>)] \<and>
   totalPages_of 5 10 = 1 \<and> currentPage_of 0 10 = 1 \<and>
   trace (renderPagination (history_at 0 5)) = [RenderPagination (TotalOnly 5)]"
  by (simp add: history_at_def renderPagination_def totalPages_of_exact currentPage_of_exact
      page_window_def pagination_items_def page_buttons.simps emit_def ceiling_eq_iff)

text \<open>
  Claim C6, amended. For a total of at least 0, a positive limit and an offset of at least
  0, with the total and the sum of offset and limit below \<open>2\<^sup>5\<^sup>3\<close>, where the arithmetic
  of the source on integers is exact: the page count \<open>tp\<close> is the ceiling of total/limit
  and the current page \<open>cp\<close> is the floor of offset/limit plus one. With at most one page
  only the number of records is shown. With two pages or more Previous is disabled
  exactly on page 1 and Next exactly on page \<open>tp\<close>; the window \<open>sp..ep\<close> lies in \<open>1..tp\<close> and
  has \<open>min 5 tp\<close> consecutive pages, contains the current page when that is at most \<open>tp\<close>
  and is \<open>cp - 2 .. cp + 2\<close> when that fits; the buttons are those of the window, preceded
  by a button for page 1 when the window starts after it and followed by a button for
  page \<open>tp\<close> when it ends before it, so that both are always present; an ellipsis stands
  between page 1 and the window exactly when the window starts after page 2, and between
  the window and page \<open>tp\<close> exactly when it ends before page \<open>tp - 1\<close>.
\<close>

theorem pagination_controls:
  fixes s :: "'a history_page_scheme"
  assumes "0 \<le> totalRecords s" and "0 < currentLimit s" and "0 \<le> currentOffset s"
    and "paginationContainer s"
    and "totalRecords s < 2 ^ 53" and "currentOffset s + currentLimit s < 2 ^ 53"
  defines "tp \<equiv> totalPages_of (totalRecords s) (currentLimit s)"
    and "cp \<equiv> currentPage_of (currentOffset s) (currentLimit s)"
  defines "sp \<equiv> fst (page_window cp tp)" and "ep \<equiv> snd (page_window cp tp)"
  shows "(tp - 1) * currentLimit s < totalRecords s \<and> totalRecords s \<le> tp * currentLimit s \<and>
         (cp - 1) * currentLimit s \<le> currentOffset s \<and> currentOffset s < cp * currentLimit s \<and>
         (tp \<le> 1 \<longrightarrow>
            trace (renderPagination s) = trace s @ [RenderPagination (TotalOnly (totalRecords s))]) \<and>
         (2 \<le> tp \<longrightarrow>
            (\<exists>p. trace (renderPagination s) = trace s @ [RenderPagination (Controls p)] \<and>
                 prevDisabled p = (cp = 1) \<and> prevOffset p = (cp - 2) * currentLimit s \<and>
                 nextDisabled p = (cp = tp) \<and> nextOffset p = cp * currentLimit s \<and>
                 1 \<le> sp \<and> sp \<le> ep \<and> ep \<le> tp \<and> ep - sp + 1 = min 5 tp \<and>
                 (cp \<le> tp \<longrightarrow> sp \<le> cp \<and> cp \<le> ep) \<and>
                 (3 \<le> cp \<and> cp + 2 \<le> tp \<longrightarrow> sp = cp - 2 \<and> ep = cp + 2) \<and>
                 pageItems p =
                   (if 1 < sp then PageButton 1 0 False # (if 2 < sp then [Dots] else []) else [])
                   @ map (\<lambda>k. PageButton k ((k - 1) * currentLimit s) (k = cp)) [sp..ep]
                   @ (if ep < tp
                      then (if ep < tp - 1 then [Dots] else [])
                           @ [PageButton tp ((tp - 1) * currentLimit s) False]
                      else []) \<and>
                 (\<exists>a. PageButton 1 0 a \<in> set (pageItems p)) \<and>
                 (\<exists>a. PageButton tp ((tp - 1) * currentLimit s) a \<in> set (pageItems p))))"
proof -
  have llt: "currentLimit s < 2 ^ 53" and olt: "currentOffset s < 2 ^ 53"
    using assms(2) assms(3) assms(6) by linarith+
  have b1: "(tp - 1) * currentLimit s < totalRecords s \<and> totalRecords s \<le> tp * currentLimit s"
    unfolding tp_def by (rule totalPages_of_bounds [OF assms(1) assms(5) assms(2) llt])
  have b2: "(cp - 1) * currentLimit s \<le> currentOffset s \<and> currentOffset s < cp * currentLimit s"
    unfolding cp_def by (rule currentPage_of_bounds [OF assms(3) olt assms(2) llt])
  have cp1: "1 \<le> cp"
    unfolding cp_def by (rule currentPage_of_ge1 [OF assms(3) olt assms(2) llt])
  have small: "tp \<le> 1 \<longrightarrow>
            trace (renderPagination s) = trace s @ [RenderPagination (TotalOnly (totalRecords s))]"
    using assms(4) by (simp add: renderPagination_def tp_def Let_def emit_def)
  have big: "2 \<le> tp \<longrightarrow>
            (\<exists>p. trace (renderPagination s) = trace s @ [RenderPagination (Controls p)] \<and>
                 prevDisabled p = (cp = 1) \<and> prevOffset p = (cp - 2) * currentLimit s \<and>
                 nextDisabled p = (cp = tp) \<and> nextOffset p = cp * currentLimit s \<and>
                 1 \<le> sp \<and> sp \<le> ep \<and> ep \<le> tp \<and> ep - sp + 1 = min 5 tp \<and>
                 (cp \<le> tp \<longrightarrow> sp \<le> cp \<and> cp \<le> ep) \<and>
                 (3 \<le> cp \<and> cp + 2 \<le> tp \<longrightarrow> sp = cp - 2 \<and> ep = cp + 2) \<and>
                 pageItems p =
                   (if 1 < sp then PageButton 1 0 False # (if 2 < sp then [Dots] else []) else [])
                   @ map (\<lambda>k. PageButton k ((k - 1) * currentLimit s) (k = cp)) [sp..ep]
                   @ (if ep < tp
                      then (if ep < tp - 1 then [Dots] else [])
                           @ [PageButton tp ((tp - 1) * currentLimit s) False]
                      else []) \<and>
                 (\<exists>a. PageButton 1 0 a \<in> set (pageItems p)) \<and>
                 (\<exists>a. PageButton tp ((tp - 1) * currentLimit s) a \<in> set (pageItems p)))"
  proof
    assume tp2: "2 \<le> tp"
    note w = page_window_props [OF tp2 cp1, folded sp_def ep_def]
    define items where "items =
                   (if 1 < sp then PageButton 1 0 False # (if 2 < sp then [Dots] else []) else [])
                   @ map (\<lambda>k. PageButton k ((k - 1) * currentLimit s) (k = cp)) [sp..ep]
                   @ (if ep < tp
                      then (if ep < tp - 1 then [Dots] else [])
                           @ [PageButton tp ((tp - 1) * currentLimit s) False]
                      else [])"
    have it: "pagination_items cp tp (currentLimit s) = items"
      by (simp add: pagination_items_def page_buttons_map items_def sp_def ep_def
          split: prod.splits)
    define p where "p = \<lparr>prevOffset = (cp - 2) * currentLimit s, prevDisabled = (cp = 1),
        pageItems = items, nextOffset = cp * currentLimit s, nextDisabled = (cp = tp),
        shownFrom = currentOffset s + 1,
        shownTo = min (currentOffset s + currentLimit s) (totalRecords s),
        shownTotal = totalRecords s\<rparr>"
    have tr: "trace (renderPagination s) = trace s @ [RenderPagination (Controls p)]"
      using assms(4) tp2 it
      by (simp add: renderPagination_def Let_def emit_def p_def tp_def [symmetric]
          cp_def [symmetric])
    have first: "\<exists>a. PageButton 1 0 a \<in> set items"
    proof (cases "1 < sp")
      case True
      then show ?thesis by (auto simp: items_def)
    next
      case False
      with w have "sp = 1" and "sp \<le> ep" by auto
      then have "PageButton 1 ((1 - 1) * currentLimit s) (1 = cp) \<in>
                   set (map (\<lambda>k. PageButton k ((k - 1) * currentLimit s) (k = cp)) [sp..ep])"
        by (auto intro!: image_eqI [where x = 1])
      then show ?thesis by (auto simp: items_def)
    qed
    have last: "\<exists>a. PageButton tp ((tp - 1) * currentLimit s) a \<in> set items"
    proof (cases "ep < tp")
      case True
      then show ?thesis by (auto simp: items_def)
    next
      case False
      with w have "ep = tp" and "sp \<le> ep" by auto
      then have "PageButton tp ((tp - 1) * currentLimit s) (tp = cp) \<in>
                   set (map (\<lambda>k. PageButton k ((k - 1) * currentLimit s) (k = cp)) [sp..ep])"
        by (auto intro!: image_eqI [where x = tp])
      then show ?thesis by (auto simp: items_def)
    qed
    have "prevDisabled p = (cp = 1)" "prevOffset p = (cp - 2) * currentLimit s"
      "nextDisabled p = (cp = tp)" "nextOffset p = cp * currentLimit s" "pageItems p = items"
      by (simp_all add: p_def)
    with tr w first last show "\<exists>p. trace (renderPagination s) = trace s @ [RenderPagination (Controls p)] \<and>
                 prevDisabled p = (cp = 1) \<and> prevOffset p = (cp - 2) * currentLimit s \<and>
                 nextDisabled p = (cp = tp) \<and> nextOffset p = cp * currentLimit s \<and>
                 1 \<le> sp \<and> sp \<le> ep \<and> ep \<le> tp \<and> ep - sp + 1 = min 5 tp \<and>
                 (cp \<le> tp \<longrightarrow> sp \<le> cp \<and> cp \<le> ep) \<and>
                 (3 \<le> cp \<and> cp + 2 \<le> tp \<longrightarrow> sp = cp - 2 \<and> ep = cp + 2) \<and>
                 pageItems p =
                   (if 1 < sp then PageButton 1 0 False # (if 2 < sp then [Dots] else []) else [])
                   @ map (\<lambda>k. PageButton k ((k - 1) * currentLimit s) (k = cp)) [sp..ep]
                   @ (if ep < tp
                      then (if ep < tp - 1 then [Dots] else [])
                           @ [PageButton tp ((tp - 1) * currentLimit s) False]
                      else []) \<and>
                 (\<exists>a. PageButton 1 0 a \<in> set (pageItems p)) \<and>
                 (\<exists>a. PageButton tp ((tp - 1) * currentLimit s) a \<in> set (pageItems p))"
      unfolding items_def [symmetric]
      by (intro exI [of _ p]) simp
  qed
  from b1 b2 small big show ?thesis by blast
qed

text \<open>
  The theorem at the two examples of the specification: 47 records at offset 20 give
  page 3 of 5 and the buttons 1 to 5 without an ellipsis; 200 records at offset 90 give
  page 10 of 20 and the window 8 to 12 between two ellipses.
\<close>

theorem pagination_controls_witness:
  "totalPages_of 47 10 = 5 \<and> currentPage_of 20 10 = 3 \<and>
   trace (renderPagination (history_at 20 47)) =
     [RenderPagination (Controls
        \<lparr>prevOffset = 10, prevDisabled = False,
         pageItems = [PageButton 1 0 False, PageButton 2 10 False, PageButton 3 20 True,
                      PageButton 4 30 False, PageButton 5 40 False],
         nextOffset = 30, nextDisabled = False,
         shownFrom = 21, shownTo = 30, shownTotal = 47\<rparr>)] \<and>
   totalPages_of 200 10 = 20 \<and> currentPage_of 90 10 = 10 \<and>
   trace (renderPagination (history_at 90 200)) =
     [RenderPagination (Controls
        \<lparr>prevOffset = 80, prevDisabled = False,
         pageItems = [PageButton 1 0 False, Dots, PageButton 8 70 False, PageButton 9 80 False,
                      PageButton 10 90 True, PageButton 11 100 False, PageButton 12 110 False,
                      Dots, PageButton 20 190 False],
         nextOffset = 100, nextDisabled = False,
         shownFrom = 91, shownTo = 100, shownTotal = 200\<rparr>)]"
proof -
  have a: "totalPages_of 47 10 = 5" "currentPage_of 20 10 = 3"
    using pagination_controls [of "history_at 20 47"] by (simp_all add: history_at_def)
  have b: "totalPages_of 200 10 = 20" "currentPage_of 90 10 = 10"
    using pagination_controls [of "history_at 90 200"] by (simp_all add: history_at_def)
  have "trace (renderPagination (history_at 20 47)) =
     [RenderPagination (Controls
        \<lparr>prevOffset = 10, prevDisabled = False,
         pageItems = [PageButton 1 0 False, PageButton 2 10 False, PageButton 3 20 True,
                      PageButton 4 30 False, PageButton 5 40 False],
         nextOffset = 30, nextDisabled = False,
         shownFrom = 21, shownTo = 30, shownTotal = 47\<rparr>)]"
    by (simp add: history_at_def renderPagination_def a page_window_def pagination_items_def
        page_buttons.simps emit_def)
  moreover have "trace (renderPagination (history_at 90 200)) =
     [RenderPagination (Controls
        \<lparr>prevOffset = 80, prevDisabled = False,
         pageItems = [PageButton 1 0 False, Dots, PageButton 8 70 False, PageButton 9 80 False,
                      PageButton 10 90 True, PageButton 11 100 False, PageButton 12 110 False,
                      Dots, PageButton 20 190 False],
         nextOffset = 100, nextDisabled = False,
         shownFrom = 91, shownTo = 100, shownTotal = 200\<rparr>)]"
    by (simp add: history_at_def renderPagination_def b page_window_def pagination_items_def
        page_buttons.simps emit_def)
  ultimately show ?thesis using a b by simp
qed

subsection \<open>Deleting a calculation\<close>

lemma requireAuth_errors: "errors (snd (requireAuth e s)) = errors s"
  by (simp add: errors_def requireAuth_trace)

lemma requireAuth_history_fields:
  "currentOffset (snd (requireAuth e s)) = currentOffset s \<and>
   currentLimit (snd (requireAuth e s)) = currentLimit s \<and>
   historyContainer (snd (requireAuth e s)) = historyContainer s \<and>
   paginationContainer (snd (requireAuth e s)) = paginationContainer s"
  by (cases "storage s")
    (auto simp: requireAuth_def isAuthenticated_def hasUserId_def getUserId_def autoInit_def
      generateUserId_def Let_def showSuccess_def setInputValue_def setUserId_def emit_def)

lemma renderPagination_frame:
  "\<exists>pag. trace (renderPagination s) = trace s @ pag \<and> length pag \<le> 1 \<and>
         (\<forall>ev\<in>set pag. \<exists>v. ev = RenderPagination v) \<and>
         currentOffset (renderPagination s) = currentOffset s \<and>
         storage (renderPagination s) = storage s"
  by (auto simp: renderPagination_def Let_def emit_def)

lemma loadHistory_stored:
  assumes "storage s = Some u" and "u \<noteq> []"
  shows "\<exists>s'. loadHistory e offset reply s = Returned s' \<and>
              currentOffset s' = offset \<and>
              requests s' = requests s @ [GetHistory u (currentLimit s) offset] \<and>
              (\<forall>data. reply = Resolved (Some data) \<and> empty_result data \<and> historyContainer s \<longrightarrow>
                 errors s' = errors s \<and>
                 (\<exists>pag. trace s' =
                          trace s @ [Request (GetHistory u (currentLimit s) offset),
                                     RenderHistory HistoryEmpty] @ pag \<and>
                        length pag \<le> 1 \<and> (\<forall>ev\<in>set pag. \<exists>v. ev = RenderPagination v)))"
proof -
  have r: "requireAuth e s = (True, s)"
    using assms by (simp add: requireAuth_def isAuthenticated_def hasUserId_def getUserId_def)
  have g: "getCurrentUserId e s = (u, s)"
    by (rule getCurrentUserId_stored [OF assms])
  show ?thesis
  proof (cases reply)
    case (Rejected msg)
    then show ?thesis
      by (simp add: loadHistory_def r g Let_def showError_def emit_def requests_def)
  next
    case (Resolved body)
    show ?thesis
    proof (cases body)
      case None
      with Resolved show ?thesis
        by (simp add: loadHistory_def r g Let_def showError_def emit_def requests_def)
    next
      case (Some data)
      define s5 where "s5 = (emit (Request (GetHistory u (currentLimit s) offset))
                               (s\<lparr>currentOffset := offset\<rparr>))
                            \<lparr>totalRecords := (case total data of Some t \<Rightarrow> t | None \<Rightarrow> 0)\<rparr>"
      have l: "loadHistory e offset reply s =
                 (case renderHistory data s5 of
                    Threw s6 \<Rightarrow> Returned (showError HistoryLoadFailed s6)
                  | Returned s6 \<Rightarrow> Returned (renderPagination s6))"
        using Resolved Some by (simp add: loadHistory_def r g Let_def s5_def)
      have s5: "trace s5 = trace s @ [Request (GetHistory u (currentLimit s) offset)]"
        "currentOffset s5 = offset" "historyContainer s5 = historyContainer s"
        by (simp_all add: s5_def emit_def)
      show ?thesis
      proof (cases "renderHistory data s5")
        case (Threw s6)
        then have t6: "s6 = s5" "\<not> historyContainer s"
          using s5(3) by (auto simp: renderHistory_def Let_def split: option.splits if_splits)
        have "loadHistory e offset reply s = Returned (showError HistoryLoadFailed s5)"
          using Threw t6 by (simp add: l)
        moreover have "currentOffset (showError HistoryLoadFailed s5) = offset"
          using s5(2) by (simp add: showError_def emit_def)
        moreover have "requests (showError HistoryLoadFailed s5) =
                         requests s @ [GetHistory u (currentLimit s) offset]"
          using s5(1) by (simp add: showError_def emit_def requests_def)
        ultimately show ?thesis
          using t6(2) by simp
      next
        case (Returned s6)
        then have t6: "\<exists>v. s6 = emit (RenderHistory v) s5"
          by (auto simp: renderHistory_def Let_def split: option.splits if_splits)
        have e6: "empty_result data \<Longrightarrow> s6 = emit (RenderHistory HistoryEmpty) s5"
          using Returned
          by (auto simp: renderHistory_def empty_result_def Let_def split: option.splits if_splits)
        obtain pag where p: "trace (renderPagination s6) = trace s6 @ pag" "length pag \<le> 1"
          "\<forall>ev\<in>set pag. \<exists>v. ev = RenderPagination v"
          "currentOffset (renderPagination s6) = currentOffset s6"
          using renderPagination_frame [of s6] by blast
        have rq: "requests (renderPagination s6) = requests s6"
          using p(1-3) by (cases pag) (auto simp: requests_def)
        have er: "errors (renderPagination s6) = errors s6"
          using p(1-3) by (cases pag) (auto simp: errors_def)
        have "loadHistory e offset reply s = Returned (renderPagination s6)"
          using Returned by (simp add: l)
        moreover have "currentOffset (renderPagination s6) = offset"
          using p(4) t6 s5(2) by (auto simp: emit_def)
        moreover have "requests (renderPagination s6) =
                         requests s @ [GetHistory u (currentLimit s) offset]"
          using rq t6 s5(1) by (auto simp: emit_def requests_def)
        moreover have "\<forall>data'. reply = Resolved (Some data') \<and> empty_result data' \<and>
                          historyContainer s \<longrightarrow>
                 errors (renderPagination s6) = errors s \<and>
                 (\<exists>pag. trace (renderPagination s6) =
                          trace s @ [Request (GetHistory u (currentLimit s) offset),
                                     RenderHistory HistoryEmpty] @ pag \<and>
                        length pag \<le> 1 \<and> (\<forall>ev\<in>set pag. \<exists>v. ev = RenderPagination v))"
        proof (intro allI impI)
          fix data'
          assume a: "reply = Resolved (Some data') \<and> empty_result data' \<and> historyContainer s"
          then have "data' = data" using Resolved Some by simp
          with a e6 have s6: "s6 = emit (RenderHistory HistoryEmpty) s5" by simp
          have "errors (renderPagination s6) = errors s"
            using er s5(1) by (simp add: s6 emit_def errors_def)
          moreover have "trace (renderPagination s6) =
                          trace s @ [Request (GetHistory u (currentLimit s) offset),
                                     RenderHistory HistoryEmpty] @ pag"
            using p(1) s5(1) by (simp add: s6 emit_def)
          ultimately show "errors (renderPagination s6) = errors s \<and>
                 (\<exists>pag. trace (renderPagination s6) =
                          trace s @ [Request (GetHistory u (currentLimit s) offset),
                                     RenderHistory HistoryEmpty] @ pag \<and>
                        length pag \<le> 1 \<and> (\<forall>ev\<in>set pag. \<exists>v. ev = RenderPagination v))"
            using p(2,3) by blast
        qed
        ultimately show ?thesis by blast
      qed
    qed
  qed
qed

lemma plain_loadHistory_stored:
  assumes "storage s = Some u" and "u \<noteq> []"
  shows "\<exists>s'. plain_loadHistory e reply s = Returned s' \<and>
              currentOffset s' = currentOffset s \<and>
              requests s' = requests s @ [GetHistory u DEFAULT_LIMIT 0] \<and>
              (\<forall>data. reply = Resolved (Some data) \<and> empty_result data \<and> historyContainer s \<longrightarrow>
                 errors s' = errors s \<and>
                 trace s' = trace s @ [Request (GetHistory u DEFAULT_LIMIT 0),
                                       RenderHistory HistoryEmpty])"
proof -
  have r: "requireAuth e s = (True, s)"
    using assms by (simp add: requireAuth_def isAuthenticated_def hasUserId_def getUserId_def)
  have g: "getCurrentUserId e s = (u, s)"
    by (rule getCurrentUserId_stored [OF assms])
  show ?thesis
    by (auto simp: plain_loadHistory_def r g Let_def showError_def emit_def requests_def
        errors_def plain_renderHistory_def empty_result_def
        split: reply.splits option.splits outcome.splits if_splits)
qed

text \<open>
  Claim C7. In every history state, a confirmed \<open>deleteCalculation\<close> whose delete request
  succeeds sends the delete request and then reloads the history at the offset that was
  current before, with the limit of the page; the offset is the same afterwards. When
  the reload brings an empty result set, a page that has the history container renders
  the empty history, followed by at most the pagination, and shows no error
  notification; the operation returns in every case, since each \<open>catch\<close> block turns a
  throw into a notification. The service without pagination, which has no offset,
  reloads the one window it ever shows, the first \<open>DEFAULT_LIMIT\<close> records, and renders an
  empty result set the same way.
\<close>

theorem delete_reloads_current_offset:
  fixes s :: "'a history_page_scheme"
  shows "\<exists>user_id s' s''.
     storage (snd (requireAuth e s)) = Some user_id \<and>
     deleteCalculation e calcId True (Resolved body) reply s = Returned s' \<and>
     requests s' = requests s @ [DeleteCalculation calcId user_id,
                                 GetHistory user_id (currentLimit s) (currentOffset s)] \<and>
     currentOffset s' = currentOffset s \<and>
     (\<forall>data. reply = Resolved (Some data) \<and> empty_result data \<and> historyContainer s \<longrightarrow>
        errors s' = errors s \<and>
        (\<exists>pag. trace s' =
                 trace (snd (requireAuth e s)) @
                   [Request (DeleteCalculation calcId user_id),
                    Notify SuccessNote CalculationDeleted,
                    Request (GetHistory user_id (currentLimit s) (currentOffset s)),
                    RenderHistory HistoryEmpty] @ pag \<and>
               length pag \<le> 1 \<and> (\<forall>ev\<in>set pag. \<exists>v. ev = RenderPagination v))) \<and>
     plain_deleteCalculation e calcId True (Resolved body) reply s = Returned s'' \<and>
     requests s'' = requests s @ [DeleteCalculation calcId user_id,
                                  GetHistory user_id DEFAULT_LIMIT 0] \<and>
     currentOffset s'' = currentOffset s \<and>
     (\<forall>data. reply = Resolved (Some data) \<and> empty_result data \<and> historyContainer s \<longrightarrow>
        errors s'' = errors s \<and>
        trace s'' =
          trace (snd (requireAuth e s)) @
            [Request (DeleteCalculation calcId user_id),
             Notify SuccessNote CalculationDeleted,
             Request (GetHistory user_id DEFAULT_LIMIT 0),
             RenderHistory HistoryEmpty])"
proof -
  obtain s1 where r: "requireAuth e s = (True, s1)"
    by (simp add: requireAuth_def)
  obtain u where u: "storage s1 = Some u" "u \<noteq> []"
    using requireAuth_stored [of e s] r by auto
  have f: "currentOffset s1 = currentOffset s" "currentLimit s1 = currentLimit s"
    "historyContainer s1 = historyContainer s"
    using requireAuth_history_fields [of e s] r by simp_all
  have q1: "requests s1 = requests s" using requireAuth_requests [of e s] r by simp
  have e1: "errors s1 = errors s" using requireAuth_errors [of e s] r by simp
  define s4 where "s4 = showSuccess CalculationDeleted (emit (Request (DeleteCalculation calcId u)) s1)"
  have s4: "storage s4 = Some u" "currentOffset s4 = currentOffset s"
    "currentLimit s4 = currentLimit s" "historyContainer s4 = historyContainer s"
    "trace s4 = trace s1 @ [Request (DeleteCalculation calcId u),
                            Notify SuccessNote CalculationDeleted]"
    "requests s4 = requests s @ [DeleteCalculation calcId u]" "errors s4 = errors s"
    using u f q1 e1 by (simp_all add: s4_def showSuccess_def emit_def requests_def errors_def)
  have d: "deleteCalculation e calcId True (Resolved body) reply s =
             (case loadHistory e (currentOffset s) reply s4 of
                Threw s5 \<Rightarrow> Returned (showError DeleteFailed s5)
              | Returned s5 \<Rightarrow> Returned s5)"
    using s4(2)
    by (simp add: deleteCalculation_def r getCurrentUserId_stored [OF u] Let_def s4_def)
  have pd: "plain_deleteCalculation e calcId True (Resolved body) reply s =
             (case plain_loadHistory e reply s4 of
                Threw s5 \<Rightarrow> Returned (showError DeleteFailed s5)
              | Returned s5 \<Rightarrow> Returned s5)"
    by (simp add: plain_deleteCalculation_def r getCurrentUserId_stored [OF u] Let_def s4_def)
  obtain s' where l: "loadHistory e (currentOffset s) reply s4 = Returned s'"
    "currentOffset s' = currentOffset s"
    "requests s' = requests s4 @ [GetHistory u (currentLimit s4) (currentOffset s)]"
    "\<forall>data. reply = Resolved (Some data) \<and> empty_result data \<and> historyContainer s4 \<longrightarrow>
                 errors s' = errors s4 \<and>
                 (\<exists>pag. trace s' =
                          trace s4 @ [Request (GetHistory u (currentLimit s4) (currentOffset s)),
                                     RenderHistory HistoryEmpty] @ pag \<and>
                        length pag \<le> 1 \<and> (\<forall>ev\<in>set pag. \<exists>v. ev = RenderPagination v))"
    using loadHistory_stored [OF s4(1) u(2), of e "currentOffset s" reply] by blast
  obtain s'' where pl: "plain_loadHistory e reply s4 = Returned s''"
    "currentOffset s'' = currentOffset s4"
    "requests s'' = requests s4 @ [GetHistory u DEFAULT_LIMIT 0]"
    "\<forall>data. reply = Resolved (Some data) \<and> empty_result data \<and> historyContainer s4 \<longrightarrow>
                 errors s'' = errors s4 \<and>
                 trace s'' = trace s4 @ [Request (GetHistory u DEFAULT_LIMIT 0),
                                         RenderHistory HistoryEmpty]"
    using plain_loadHistory_stored [OF s4(1) u(2), of e reply] by blast
  have c1: "storage (snd (requireAuth e s)) = Some u" using u r by simp
  have c2: "deleteCalculation e calcId True (Resolved body) reply s = Returned s'"
    by (simp add: d l(1))
  have c3: "requests s' = requests s @ [DeleteCalculation calcId u,
                                 GetHistory u (currentLimit s) (currentOffset s)]"
    using l(3) s4 by simp
  have c5: "\<forall>data. reply = Resolved (Some data) \<and> empty_result data \<and> historyContainer s \<longrightarrow>
        errors s' = errors s \<and>
        (\<exists>pag. trace s' =
                 trace (snd (requireAuth e s)) @
                   [Request (DeleteCalculation calcId u),
                    Notify SuccessNote CalculationDeleted,
                    Request (GetHistory u (currentLimit s) (currentOffset s)),
                    RenderHistory HistoryEmpty] @ pag \<and>
               length pag \<le> 1 \<and> (\<forall>ev\<in>set pag. \<exists>v. ev = RenderPagination v))"
    using l(4) s4 r by auto
  have c6: "plain_deleteCalculation e calcId True (Resolved body) reply s = Returned s''"
    by (simp add: pd pl(1))
  have c7: "requests s'' = requests s @ [DeleteCalculation calcId u, GetHistory u DEFAULT_LIMIT 0]"
    using pl(3) s4 by simp
  have c8: "currentOffset s'' = currentOffset s" using pl(2) s4 by simp
  have c9: "\<forall>data. reply = Resolved (Some data) \<and> empty_result data \<and> historyContainer s \<longrightarrow>
        errors s'' = errors s \<and>
        trace s'' =
          trace (snd (requireAuth e s)) @
            [Request (DeleteCalculation calcId u),
             Notify SuccessNote CalculationDeleted,
             Request (GetHistory u DEFAULT_LIMIT 0),
             RenderHistory HistoryEmpty]"
    using pl(4) s4 r by auto
  from c1 c2 c3 l(2) c5 c6 c7 c8 c9 show ?thesis by blast
qed

text \<open>
  The theorem where the only record of page 5 (offset 40 of 41 records) is deleted: the
  reload asks for offset 40, gets no record and a total of 40, and renders the empty
  history and the four remaining pages.
\<close>

theorem delete_reloads_current_offset_witness:
  "deleteCalculation sample_env 7 True (Resolved None)
     (Resolved (Some \<lparr>calculations = Some [], total = Some 40, limit = Some 10\<rparr>))
     (history_at 40 41) =
   Returned ((history_at 40 41)\<lparr>trace :=
       [Request (DeleteCalculation 7 (ascii ''u1'')),
        Notify SuccessNote CalculationDeleted,
        Request (GetHistory (ascii ''u1'') 10 40),
        RenderHistory HistoryEmpty,
        RenderPagination (Controls
          \<lparr>prevOffset = 30, prevDisabled = False,
           pageItems = [PageButton 1 0 False, PageButton 2 10 False, PageButton 3 20 False,
                        PageButton 4 30 False],
           nextOffset = 50, nextDisabled = False,
           shownFrom = 41, shownTo = 40, shownTotal = 40\<rparr>)],
     totalRecords := 40\<rparr>) \<and>
   plain_deleteCalculation sample_env 7 True (Resolved None)
     (Resolved (Some \<lparr>calculations = Some [], total = Some 40, limit = Some 10\<rparr>))
     (history_at 40 41) =
   Returned ((history_at 40 41)\<lparr>trace :=
       [Request (DeleteCalculation 7 (ascii ''u1'')),
        Notify SuccessNote CalculationDeleted,
        Request (GetHistory (ascii ''u1'') 10 0),
        RenderHistory HistoryEmpty]\<rparr>)"
  using delete_reloads_current_offset [of "sample_env" "history_at 40 41" 7 None
      "Resolved (Some \<lparr>calculations = Some [], total = Some 40, limit = Some 10\<rparr>)"]
  by (simp add: history_at_def deleteCalculation_def plain_deleteCalculation_def loadHistory_def
      plain_loadHistory_def requireAuth_def isAuthenticated_def hasUserId_def getUserId_def
      getCurrentUserId_def ascii_def showSuccess_def emit_def renderHistory_def
      plain_renderHistory_def renderPagination_def totalPages_of_exact currentPage_of_exact
      page_window_def pagination_items_def page_buttons.simps DEFAULT_LIMIT_def)

end
